theory Spec2Isabelle
  imports Complex_Main
begin

section \<open>The fastText model core (src/model.cc) as HOL functions\<close>

text \<open>
  The C++ type \<open>real\<close> (a binary floating-point number) is idealised as the HOL type
  \<^typ>\<open>real\<close>: arithmetic is exact, there is no rounding, no infinity and no NaN.  Where
  the C++ would produce an infinity or a NaN (a division by zero, the square root of a
  negative number) the embedding stops with a fault instead of going on with a value the
  idealisation does not have (the C++ itself goes on, with the infinity or the NaN).  The
  one exception is the table of negatives, whose size the rounding decides: there every
  floating-point operation goes through an explicit rounding, a parameter of the
  embedding.  The 32 and 64 bit integers of the source are \<^typ>\<open>int\<close>;
  the places where the source's arithmetic could leave their range stop with a fault.
  Writes to \<open>std::cerr\<close> under \<open>verbose > 2\<close> change no state and are left out.
\<close>

subsection \<open>Outcomes\<close>

datatype fault =
    InvalidArgument string  \<comment> \<open>\<open>throw std::invalid_argument(msg)\<close>\<close>
  | AssertionFailed         \<comment> \<open>an \<open>assert\<close> of the source does not hold\<close>
  | OutOfRange              \<comment> \<open>a vector or matrix is read or written outside its bounds\<close>
  | NullPointer             \<comment> \<open>a \<open>shared_ptr\<close> that was never set is dereferenced\<close>
  | LengthError             \<comment> \<open>\<open>resize\<close> to a negative size\<close>
  | IntegerOverflow         \<comment> \<open>signed integer arithmetic leaves its range\<close>
  | DivisionByZero          \<comment> \<open>a floating-point division by zero (infinity or NaN in C++)\<close>
  | NotANumber              \<comment> \<open>\<open>pow(x, 0.5)\<close> of a negative number, \<open>std::log\<close> of a number that is not positive\<close>
  | Diverges                \<comment> \<open>a loop of the call never ends\<close>

definition andThen :: "fault + 'a \<Rightarrow> ('a \<Rightarrow> fault + 'b) \<Rightarrow> fault + 'b" where
  "andThen r f = (case r of Inl e \<Rightarrow> Inl e | Inr x \<Rightarrow> f x)"

text \<open>The outcomes that are a \<open>std::invalid_argument\<close> exception.\<close>

fun invalidArgumentFault :: "fault \<Rightarrow> bool" where
  "invalidArgumentFault (InvalidArgument msg) = True"
| "invalidArgumentFault e = False"

definition isInvalidArgument :: "fault + 'a \<Rightarrow> bool" where
  "isInvalidArgument r = (case r of Inl e \<Rightarrow> invalidArgumentFault e | Inr x \<Rightarrow> False)"

text \<open>
  A \<open>for\<close> loop over the indices (or the elements) \<open>xs\<close>, with the loop's variables as
  the state \<open>s\<close>: the body runs once for each element, in order, and the first fault ends
  the loop.
\<close>

fun forEach :: "'a list \<Rightarrow> 's \<Rightarrow> ('s \<Rightarrow> 'a \<Rightarrow> fault + 's) \<Rightarrow> fault + 's" where
  "forEach [] s body = Inr s"
| "forEach (x # xs) s body = andThen (body s x) (\<lambda>s'. forEach xs s' body)"

definition int32_ok :: "int \<Rightarrow> bool" where
  "int32_ok x = (- (2 ^ 31) \<le> x \<and> x < 2 ^ 31)"

definition int64_ok :: "int \<Rightarrow> bool" where
  "int64_ok x = (- (2 ^ 63) \<le> x \<and> x < 2 ^ 63)"

subsection \<open>The Huffman tree\<close>

text \<open>
  Modelled from the spec: model.h, which declares the struct \<open>Node\<close>, is not part of the
  source at hand.  The spec gives a node the links \<open>parent\<close>, \<open>left\<close> and \<open>right\<close> (indices,
  -1 for none), the aggregated \<open>count\<close> and the code bit \<open>binary\<close>; model.cc assigns
  \<open>int32_t\<close> indices to the links and \<open>int64_t\<close> counts and \<open>1e15\<close> to the count.
\<close>

record Node =
  parent :: int
  left :: int
  right :: int
  count :: int
  binary :: bool

definition initNode :: Node where
  "initNode = \<lparr>parent = - 1, left = - 1, right = - 1, count = 10 ^ 15, binary = False\<rparr>"

definition nodeAt :: "Node list \<Rightarrow> int \<Rightarrow> fault + Node" where
  "nodeAt t i = (if 0 \<le> i \<and> i < int (length t) then Inr (t ! nat i) else Inl OutOfRange)"

definition setNode :: "Node list \<Rightarrow> int \<Rightarrow> (Node \<Rightarrow> Node) \<Rightarrow> fault + Node list" where
  "setNode t i f =
     (if 0 \<le> i \<and> i < int (length t) then Inr (t[nat i := f (t ! nat i)]) else Inl OutOfRange)"

text \<open>
  One round of the inner loop \<open>for j < 2\<close>: the test
  \<open>leaf >= 0 && tree[leaf].count < tree[node].count\<close> (the right operand is only read
  when \<open>leaf >= 0\<close>), then \<open>mini[j] = leaf--\<close> or \<open>mini[j] = node++\<close>.  The result is
  \<open>(mini[j], leaf, node)\<close>.
\<close>

definition pickMin :: "Node list \<Rightarrow> int \<Rightarrow> int \<Rightarrow> fault + (int \<times> int \<times> int)" where
  "pickMin t leaf node =
     (if leaf \<ge> 0
      then andThen (nodeAt t leaf) (\<lambda>l. andThen (nodeAt t node) (\<lambda>n.
             if count l < count n then Inr (leaf, leaf - 1, node) else Inr (node, leaf, node + 1)))
      else Inr (node, leaf, node + 1))"

text \<open>The body of the loop over the internal nodes \<open>i\<close>, on the state \<open>(tree, leaf, node)\<close>.\<close>

definition buildTreeStep ::
  "Node list \<times> int \<times> int \<Rightarrow> int \<Rightarrow> fault + (Node list \<times> int \<times> int)" where
  "buildTreeStep s i =
     (case s of (t, leaf, node) \<Rightarrow>
        andThen (pickMin t leaf node) (\<lambda>(m0, leaf1, node1).
        andThen (pickMin t leaf1 node1) (\<lambda>(m1, leaf2, node2).
        andThen (setNode t i (\<lambda>n. n\<lparr>left := m0\<rparr>)) (\<lambda>t1.
        andThen (setNode t1 i (\<lambda>n. n\<lparr>right := m1\<rparr>)) (\<lambda>t2.
        andThen (nodeAt t2 m0) (\<lambda>a.
        andThen (nodeAt t2 m1) (\<lambda>b.
        if \<not> int64_ok (count a + count b) then Inl IntegerOverflow else
        andThen (setNode t2 i (\<lambda>n. n\<lparr>count := count a + count b\<rparr>)) (\<lambda>t3.
        andThen (setNode t3 m0 (\<lambda>n. n\<lparr>parent := i\<rparr>)) (\<lambda>t4.
        andThen (setNode t4 m1 (\<lambda>n. n\<lparr>parent := i\<rparr>)) (\<lambda>t5.
        andThen (setNode t5 m1 (\<lambda>n. n\<lparr>binary := True\<rparr>)) (\<lambda>t6.
        Inr (t6, leaf2, node2))))))))))))"

text \<open>
  The walk from a leaf to the root,
  \<open>while (tree[j].parent != -1) { path.push_back(tree[j].parent - osz_);
  code.push_back(tree[j].binary); j = tree[j].parent; }\<close>.
  Nothing in the loop bounds the number of rounds, so not returning is \<open>None\<close>.
\<close>

partial_function (option) walkToRoot ::
  "Node list \<Rightarrow> int \<Rightarrow> int \<Rightarrow> int list \<Rightarrow> bool list \<Rightarrow> (fault + (int list \<times> bool list)) option" where
  "walkToRoot t osz j path code =
     (if 0 \<le> j \<and> j < int (length t)
      then (if parent (t ! nat j) \<noteq> - 1
            then walkToRoot t osz (parent (t ! nat j))
                   (path @ [parent (t ! nat j) - osz]) (code @ [binary (t ! nat j)])
            else Some (Inr (path, code)))
      else Some (Inl OutOfRange))"

text \<open>
  The part of \<open>buildTree\<close> that makes the tree (everything before the loop over the
  leaves' paths), from \<open>osz_\<close> and the counts: \<open>resize\<close>, the loop that resets every
  node, the loop \<open>tree[i].count = counts[i]\<close>, and the loop over the internal nodes.
\<close>

definition buildTreeNodes :: "int \<Rightarrow> int list \<Rightarrow> fault + Node list" where
  "buildTreeNodes osz counts =
     (if \<not> int32_ok (2 * osz) then Inl IntegerOverflow
      else if 2 * osz - 1 < 0 then Inl LengthError
      else andThen
             (forEach [0 .. osz - 1] (replicate (nat (2 * osz - 1)) initNode)
                (\<lambda>t i. if 0 \<le> i \<and> i < int (length counts)
                       then setNode t i (\<lambda>n. n\<lparr>count := counts ! nat i\<rparr>)
                       else Inl OutOfRange))
             (\<lambda>t0. andThen (forEach [osz .. 2 * osz - 2] (t0, osz - 1, osz) buildTreeStep)
               (\<lambda>(t, leaf, node). Inr t)))"

text \<open>The last loop of \<open>buildTree\<close>: one path and one code pushed for every leaf.\<close>

definition buildPaths ::
  "Node list \<Rightarrow> int \<Rightarrow> int list list \<times> bool list list
     \<Rightarrow> fault + (int list list \<times> bool list list)" where
  "buildPaths t osz pc =
     forEach [0 .. osz - 1] pc
       (\<lambda>(ps, cs) i. case walkToRoot t osz i [] [] of
            None \<Rightarrow> Inl Diverges
          | Some r \<Rightarrow> andThen r (\<lambda>(path, code). Inr (ps @ [path], cs @ [code])))"

subsection \<open>Vectors and matrices\<close>

text \<open>
  Modelled from the spec: the classes \<open>Vector\<close>, \<open>Matrix\<close> and \<open>QMatrix\<close> (vector.h,
  matrix.h, qmatrix.h) are not part of the source at hand.  The spec names their
  operations: \<open>dotRow(vector, rowIndex)\<close>, \<open>addRow(vector or matrix-row, rowIndex, scale)\<close>,
  \<open>mul(matrix, vector)\<close>, \<open>size(dim)\<close>, \<open>zero\<close> and the scaling \<open>mul(scalar)\<close>.  A vector
  is the list of its entries, a matrix the list of its rows; an operation on a row index
  outside the matrix, or on a vector whose length is not the row length, is a fault.
  A quantized matrix is taken as the matrix of the rows it reconstructs.
\<close>

type_synonym Vector = "real list"
type_synonym Matrix = "real list list"

definition Vector_zero :: "Vector \<Rightarrow> Vector" where
  "Vector_zero v = map (\<lambda>x. 0) v"

definition Vector_mul :: "Vector \<Rightarrow> real \<Rightarrow> Vector" where
  "Vector_mul v a = map (\<lambda>x. x * a) v"

definition rowAt :: "Matrix \<Rightarrow> int \<Rightarrow> Vector \<Rightarrow> fault + Vector" where
  "rowAt A i v =
     (if 0 \<le> i \<and> i < int (length A) \<and> length (A ! nat i) = length v
      then Inr (A ! nat i) else Inl OutOfRange)"

definition Vector_addRow :: "Vector \<Rightarrow> Matrix \<Rightarrow> int \<Rightarrow> fault + Vector" where
  "Vector_addRow v A i = andThen (rowAt A i v) (\<lambda>row. Inr (map2 (\<lambda>x y. x + y) v row))"

definition Vector_addRow_scaled :: "Vector \<Rightarrow> Matrix \<Rightarrow> int \<Rightarrow> real \<Rightarrow> fault + Vector" where
  "Vector_addRow_scaled v A i a =
     andThen (rowAt A i v) (\<lambda>row. Inr (map2 (\<lambda>x y. x + a * y) v row))"

definition dot :: "Vector \<Rightarrow> Vector \<Rightarrow> real" where
  "dot u v = sum_list (map2 (\<lambda>x y. x * y) u v)"

definition Matrix_dotRow :: "Matrix \<Rightarrow> Vector \<Rightarrow> int \<Rightarrow> fault + real" where
  "Matrix_dotRow A v i = andThen (rowAt A i v) (\<lambda>row. Inr (dot row v))"

definition Matrix_addRow :: "Matrix \<Rightarrow> Vector \<Rightarrow> int \<Rightarrow> real \<Rightarrow> fault + Matrix" where
  "Matrix_addRow A v i a =
     andThen (rowAt A i v) (\<lambda>row. Inr (A[nat i := map2 (\<lambda>x y. x + a * y) row v]))"

definition Vector_mul_matrix :: "Vector \<Rightarrow> Matrix \<Rightarrow> Vector \<Rightarrow> fault + Vector" where
  "Vector_mul_matrix out A v =
     (if length A = length out \<and> list_all (\<lambda>row. length row = length v) A
      then Inr (map (\<lambda>row. dot row v) A) else Inl OutOfRange)"

definition elemAt :: "'a list \<Rightarrow> int \<Rightarrow> fault + 'a" where
  "elemAt xs i = (if 0 \<le> i \<and> i < int (length xs) then Inr (xs ! nat i) else Inl OutOfRange)"

definition deref :: "'a option \<Rightarrow> fault + 'a" where
  "deref p = (case p of None \<Rightarrow> Inl NullPointer | Some x \<Rightarrow> Inr x)"

subsection \<open>The configuration and the model\<close>

text \<open>
  Modelled from the spec: args.h is not part of the source at hand.  The spec lists the
  configuration (dimension, loss kind, number of negatives, model kind, verbosity);
  model.cc reads the fields \<open>dim\<close>, \<open>loss\<close>,
  \<open>neg\<close>, \<open>model\<close>, \<open>verbose\<close> and \<open>qout\<close>, and names the enumerators \<open>loss_name::ns\<close>,
  \<open>loss_name::hs\<close> and \<open>model_name::sup\<close>.  The third loss is the full softmax; the models
  other than \<open>sup\<close> are the two that train embeddings.
\<close>

datatype loss_name = hs | ns | softmax
datatype model_name = cbow | sg | sup

record Args =
  dim :: int
  loss :: loss_name
  neg :: int
  model :: model_name
  verbose :: int
  qout :: bool

text \<open>
  Modelled from the spec: the members of \<open>Model\<close> are declared in model.h, which is not
  part of the source at hand; they are taken from the spec's data model and from their
  uses in model.cc (\<open>negpos\<close> is an index into \<open>negatives_\<close>, \<open>nexamples_\<close> a 64 bit
  counter).  The matrices behind the shared pointers \<open>wi_\<close> and \<open>wo_\<close> are
  held by value: the embedding follows one instance, with no other instance writing
  to its matrices in between.  \<open>rng\<close> is the state of the generator, which the
  constructor sets from the seed.
\<close>

record Model =
  wi_' :: Matrix
  wo_' :: Matrix
  qwi_' :: "Matrix option"
  qwo_' :: "Matrix option"
  args_' :: Args
  hidden_' :: Vector
  output_' :: Vector
  grad_' :: Vector
  hsz_' :: int
  osz_' :: int
  loss_' :: real
  nexamples_' :: int
  t_sigmoid_' :: "real list"
  t_log_' :: "real list"
  negatives_' :: "int list"
  negpos :: nat
  paths :: "int list list"
  codes :: "bool list list"
  tree :: "Node list"
  rng :: int
  quant_' :: bool

definition SIGMOID_TABLE_SIZE :: int where "SIGMOID_TABLE_SIZE = 512"
definition MAX_SIGMOID :: int where "MAX_SIGMOID = 8"
definition LOG_TABLE_SIZE :: int where "LOG_TABLE_SIZE = 512"

text \<open>The conversion \<open>int64_t(x)\<close> of a floating-point number: towards zero.\<close>

definition to_int64 :: "real \<Rightarrow> fault + int" where
  "to_int64 x =
     (let i = (if 0 \<le> x then \<lfloor>x\<rfloor> else \<lceil>x\<rceil>)
      in if int64_ok i then Inr i else Inl IntegerOverflow)"

definition initSigmoid :: "Model \<Rightarrow> Model" where
  "initSigmoid m =
     m\<lparr>t_sigmoid_' := t_sigmoid_' m @
          map (\<lambda>i. let x = real_of_int (i * 2 * MAX_SIGMOID) / real_of_int SIGMOID_TABLE_SIZE
                            - real_of_int MAX_SIGMOID
                   in 1 / (1 + exp (- x)))
            [0 .. SIGMOID_TABLE_SIZE]\<rparr>"

definition initLog :: "Model \<Rightarrow> Model" where
  "initLog m =
     m\<lparr>t_log_' := t_log_' m @
          map (\<lambda>i. let x = (real_of_int i + 1 / 100000) / real_of_int LOG_TABLE_SIZE in ln x)
            [0 .. LOG_TABLE_SIZE]\<rparr>"

definition log :: "Model \<Rightarrow> real \<Rightarrow> fault + real" where
  "log m x =
     (if x > 1 then Inr 0
      else andThen (to_int64 (x * real_of_int LOG_TABLE_SIZE)) (\<lambda>i. elemAt (t_log_' m) i))"

definition std_log :: "real \<Rightarrow> fault + real" where
  "std_log x = (if x + 1 / 100000 \<le> 0 then Inl NotANumber else Inr (ln (x + 1 / 100000)))"

definition sigmoid :: "Model \<Rightarrow> real \<Rightarrow> fault + real" where
  "sigmoid m x =
     (if x < - real_of_int MAX_SIGMOID then Inr 0
      else if x > real_of_int MAX_SIGMOID then Inr 1
      else andThen
             (to_int64 ((x + real_of_int MAX_SIGMOID) * real_of_int SIGMOID_TABLE_SIZE
                          / real_of_int MAX_SIGMOID / 2))
             (\<lambda>i. elemAt (t_sigmoid_' m) i))"

text \<open>
  The constructor.  The three scratch vectors are made with \<open>dim\<close>, \<open>wo->size(0)\<close> and
  \<open>dim\<close> entries; a negative \<open>dim\<close> cannot be the size of a vector.
\<close>

definition Model :: "Matrix \<Rightarrow> Matrix \<Rightarrow> Args \<Rightarrow> int \<Rightarrow> fault + Model" where
  "Model wi wo args seed =
     (if dim args < 0 then Inl LengthError
      else Inr (initLog (initSigmoid
        \<lparr>wi_' = wi, wo_' = wo, qwi_' = None, qwo_' = None, args_' = args,
         hidden_' = replicate (nat (dim args)) 0,
         output_' = replicate (length wo) 0,
         grad_' = replicate (nat (dim args)) 0,
         hsz_' = dim args, osz_' = int (length wo),
         loss_' = 0, nexamples_' = 1,
         t_sigmoid_' = [], t_log_' = [],
         negatives_' = [], negpos = 0, paths = [], codes = [], tree = [],
         rng = seed, quant_' = False\<rparr>)))"

definition setQuantizePointer :: "Model \<Rightarrow> Matrix option \<Rightarrow> Matrix option \<Rightarrow> bool \<Rightarrow> fault + Model" where
  "setQuantizePointer m qwi qwo qout' =
     (let m1 = m\<lparr>qwi_' := qwi, qwo_' := qwo\<rparr>
      in if qout' then andThen (deref (qwo_' m1)) (\<lambda>q. Inr (m1\<lparr>osz_' := int (length q)\<rparr>))
         else Inr m1)"

subsection \<open>Training\<close>

definition binaryLogistic :: "Model \<Rightarrow> int \<Rightarrow> bool \<Rightarrow> real \<Rightarrow> fault + (real \<times> Model)" where
  "binaryLogistic m target label lr =
     andThen (Matrix_dotRow (wo_' m) (hidden_' m) target) (\<lambda>d.
     andThen (sigmoid m d) (\<lambda>score.
       let alpha = lr * ((if label then 1 else 0) - score) in
     andThen (Vector_addRow_scaled (grad_' m) (wo_' m) target alpha) (\<lambda>g.
     andThen (Matrix_addRow (wo_' m) (hidden_' m) target alpha) (\<lambda>w.
       let m' = m\<lparr>grad_' := g, wo_' := w\<rparr> in
       if label then andThen (log m' score) (\<lambda>l. Inr (- l, m'))
       else andThen (log m' (1 - score)) (\<lambda>l. Inr (- l, m'))))))"

text \<open>
  \<open>getNegative\<close>: \<open>do { negative = negatives_[negpos]; negpos = (negpos + 1) %
  negatives_.size(); } while (target == negative);\<close>.  The loop has no bound on its
  rounds, so not returning is \<open>None\<close>.
\<close>

partial_function (option) getNegativeLoop ::
  "int list \<Rightarrow> nat \<Rightarrow> int \<Rightarrow> (fault + (int \<times> nat)) option" where
  "getNegativeLoop negs pos target =
     (if pos < length negs
      then (let negative = negs ! pos; pos' = (pos + 1) mod length negs
            in if target = negative then getNegativeLoop negs pos' target
               else Some (Inr (negative, pos')))
      else Some (Inl OutOfRange))"

definition getNegative :: "Model \<Rightarrow> int \<Rightarrow> fault + (int \<times> Model)" where
  "getNegative m target =
     (case getNegativeLoop (negatives_' m) (negpos m) target of
        None \<Rightarrow> Inl Diverges
      | Some r \<Rightarrow> andThen r (\<lambda>(negative, pos). Inr (negative, m\<lparr>negpos := pos\<rparr>)))"

definition negativeSampling :: "Model \<Rightarrow> int \<Rightarrow> real \<Rightarrow> fault + (real \<times> Model)" where
  "negativeSampling m target lr =
     forEach [0 .. neg (args_' m)] (0, m\<lparr>grad_' := Vector_zero (grad_' m)\<rparr>)
       (\<lambda>(loss, m1) n.
          if n = 0
          then andThen (binaryLogistic m1 target True lr) (\<lambda>(l, m2). Inr (loss + l, m2))
          else andThen (getNegative m1 target) (\<lambda>(negative, m2).
               andThen (binaryLogistic m2 negative False lr) (\<lambda>(l, m3). Inr (loss + l, m3))))"

definition hierarchicalSoftmax :: "Model \<Rightarrow> int \<Rightarrow> real \<Rightarrow> fault + (real \<times> Model)" where
  "hierarchicalSoftmax m target lr =
     andThen (elemAt (codes m) target) (\<lambda>binaryCode.
     andThen (elemAt (paths m) target) (\<lambda>pathToRoot.
       forEach [0 .. int (length pathToRoot) - 1] (0, m\<lparr>grad_' := Vector_zero (grad_' m)\<rparr>)
         (\<lambda>(loss, m1) i.
            andThen (elemAt pathToRoot i) (\<lambda>p.
            andThen (elemAt binaryCode i) (\<lambda>c.
            andThen (binaryLogistic m1 p c lr) (\<lambda>(l, m2). Inr (loss + l, m2)))))))"

text \<open>
  \<open>computeOutputSoftmax(hidden, output)\<close>; the result is the new \<open>output\<close>.  The three
  loops run over \<open>i < osz_\<close>, whatever the length of \<open>output\<close>.
\<close>

definition computeOutputSoftmax :: "Model \<Rightarrow> Vector \<Rightarrow> Vector \<Rightarrow> fault + Vector" where
  "computeOutputSoftmax m hidden output =
     andThen (if quant_' m \<and> qout (args_' m)
              then andThen (deref (qwo_' m)) (\<lambda>q. Vector_mul_matrix output q hidden)
              else Vector_mul_matrix output (wo_' m) hidden) (\<lambda>out0.
     andThen (elemAt out0 0) (\<lambda>max0.
     andThen (forEach [0 .. osz_' m - 1] max0
                (\<lambda>mx i. andThen (elemAt out0 i) (\<lambda>x. Inr (max x mx)))) (\<lambda>mx.
     andThen (forEach [0 .. osz_' m - 1] (out0, 0)
                (\<lambda>(out, z) i. andThen (elemAt out i) (\<lambda>x.
                     let e = exp (x - mx) in Inr (out[nat i := e], z + e)))) (\<lambda>(out1, z).
     forEach [0 .. osz_' m - 1] out1
       (\<lambda>out i. andThen (elemAt out i) (\<lambda>x.
            if z = 0 then Inl DivisionByZero else Inr (out[nat i := x / z])))))))"

definition softmax :: "Model \<Rightarrow> int \<Rightarrow> real \<Rightarrow> fault + (real \<times> Model)" where
  "softmax m target lr =
     andThen (computeOutputSoftmax m (hidden_' m) (output_' m)) (\<lambda>out.
     andThen (forEach [0 .. osz_' m - 1] (m\<lparr>grad_' := Vector_zero (grad_' m), output_' := out\<rparr>)
                (\<lambda>m1 i.
                   let label = (if i = target then 1 else 0) in
                   andThen (elemAt (output_' m1) i) (\<lambda>prob.
                     let alpha = lr * (label - prob) in
                   andThen (Vector_addRow_scaled (grad_' m1) (wo_' m1) i alpha) (\<lambda>g.
                   andThen (Matrix_addRow (wo_' m1) (hidden_' m1) i alpha) (\<lambda>w.
                     Inr (m1\<lparr>grad_' := g, wo_' := w\<rparr>)))))) (\<lambda>m2.
     andThen (elemAt (output_' m2) target) (\<lambda>prob.
     andThen (log m2 prob) (\<lambda>l. Inr (- l, m2)))))"

text \<open>
  \<open>computeHidden(input, hidden)\<close>; the result is the new \<open>hidden\<close>.  The last statement,
  \<open>hidden.mul(1.0 / input.size())\<close>, divides by the length of the input.
\<close>

definition computeHidden :: "Model \<Rightarrow> int list \<Rightarrow> Vector \<Rightarrow> fault + Vector" where
  "computeHidden m input hidden =
     (if int (length hidden) \<noteq> hsz_' m then Inl AssertionFailed
      else andThen (forEach input (Vector_zero hidden)
                      (\<lambda>h it. if quant_' m
                               then andThen (deref (qwi_' m)) (\<lambda>q. Vector_addRow h q it)
                               else Vector_addRow h (wi_' m) it)) (\<lambda>h.
           if length input = 0 then Inl DivisionByZero
           else Inr (Vector_mul h (1 / real (length input)))))"

text \<open>
  The loss of one example: the value that \<open>update\<close> adds to \<open>loss_\<close>, from the strategy
  that \<open>args_->loss\<close> selects, with the model as the strategy leaves it.
\<close>

definition exampleLoss :: "Model \<Rightarrow> int \<Rightarrow> real \<Rightarrow> fault + (real \<times> Model)" where
  "exampleLoss m target lr =
     (if loss (args_' m) = loss_name.ns then negativeSampling m target lr
      else if loss (args_' m) = loss_name.hs then hierarchicalSoftmax m target lr
      else softmax m target lr)"

definition update :: "Model \<Rightarrow> int list \<Rightarrow> int \<Rightarrow> real \<Rightarrow> fault + Model" where
  "update m input target lr =
     (if \<not> target \<ge> 0 then Inl AssertionFailed
      else if \<not> target < osz_' m then Inl AssertionFailed
      else if length input = 0 then Inr m
      else andThen (computeHidden m input (hidden_' m)) (\<lambda>h.
           andThen (exampleLoss (m\<lparr>hidden_' := h\<rparr>) target lr) (\<lambda>(l, m1).
           if \<not> int64_ok (nexamples_' m1 + 1) then Inl IntegerOverflow else
           let m2 = m1\<lparr>loss_' := loss_' m1 + l, nexamples_' := nexamples_' m1 + 1\<rparr>;
               m3 = (if model (args_' m2) = model_name.sup
                     then m2\<lparr>grad_' := Vector_mul (grad_' m2) (1 / real (length input))\<rparr>
                     else m2)
           in forEach input m3
                (\<lambda>m4 it. andThen (Matrix_addRow (wi_' m4) (grad_' m4) it 1)
                            (\<lambda>w. Inr (m4\<lparr>wi_' := w\<rparr>))))))"

definition getLoss :: "Model \<Rightarrow> fault + real" where
  "getLoss m =
     (if nexamples_' m = 0 then Inl DivisionByZero
      else Inr (loss_' m / real_of_int (nexamples_' m)))"

text \<open>
  A training example is the triple of arguments of one call of \<open>update\<close>.  \<open>updates\<close> is
  a sequence of calls on one instance, each on the model as the call before left it.
\<close>

type_synonym example = "int list \<times> int \<times> real"

definition updates :: "Model \<Rightarrow> example list \<Rightarrow> fault + Model" where
  "updates m exs = forEach exs m (\<lambda>m1 (input, target, lr). update m1 input target lr)"

text \<open>
  The loss of the example of one call of \<open>update\<close> on a non-empty input: the value the
  call adds to \<open>loss_\<close>, which is what the selected strategy returns on the hidden vector
  of the input.  \<open>exampleLosses\<close> lists these values along a sequence of calls.
\<close>

definition updateLoss :: "Model \<Rightarrow> int list \<Rightarrow> int \<Rightarrow> real \<Rightarrow> fault + real" where
  "updateLoss m input target lr =
     andThen (computeHidden m input (hidden_' m)) (\<lambda>h.
     andThen (exampleLoss (m\<lparr>hidden_' := h\<rparr>) target lr) (\<lambda>(l, m1). Inr l))"

fun exampleLosses :: "Model \<Rightarrow> example list \<Rightarrow> real list" where
  "exampleLosses m [] = []"
| "exampleLosses m ((input, target, lr) # exs) =
     (case updateLoss m input target lr of
        Inl e \<Rightarrow> []
      | Inr l \<Rightarrow> (case update m input target lr of
                   Inl e \<Rightarrow> [l]
                 | Inr m' \<Rightarrow> l # exampleLosses m' exs))"

subsection \<open>The bounded heap of the best classes\<close>

text \<open>
  \<open>std::push_heap\<close>, \<open>std::pop_heap\<close> and \<open>std::sort_heap\<close> belong to the C++ library, not
  to the source at hand.  The standard fixes what they establish (the range is a heap for
  the comparison; \<open>pop_heap\<close> moves the first element to the end; \<open>sort_heap\<close> sorts), not
  the order of elements that compare equal.  They are taken as libstdc++ has them
  (bits/stl_heap.h): \<open>__push_heap\<close> moves a hole up from \<open>holeIndex\<close> as long as the parent
  compares below the value, \<open>__adjust_heap\<close> moves the hole down to the bottom along the
  children that do not compare below their sibling and then pushes the value up from
  there, and \<open>__pop_heap\<close> puts the first element at the end and adjusts the heap with the
  element that was there.
\<close>

type_synonym Heap = "(real \<times> int) list"

definition comparePairs :: "real \<times> int \<Rightarrow> real \<times> int \<Rightarrow> bool" where
  "comparePairs l r = (fst l > fst r)"

function push_heap_value ::
  "('a \<Rightarrow> 'a \<Rightarrow> bool) \<Rightarrow> 'a list \<Rightarrow> nat \<Rightarrow> nat \<Rightarrow> 'a \<Rightarrow> 'a list" where
  "push_heap_value cmp xs holeIndex topIndex v =
     (if holeIndex > topIndex \<and> cmp (xs ! ((holeIndex - 1) div 2)) v
      then push_heap_value cmp (xs[holeIndex := xs ! ((holeIndex - 1) div 2)])
             ((holeIndex - 1) div 2) topIndex v
      else xs[holeIndex := v])"
  by pat_completeness auto
termination
  by (relation "measure (\<lambda>(cmp, xs, holeIndex, topIndex, v). holeIndex)") auto

declare push_heap_value.simps [simp del]

text \<open>
  \<open>secondChild = 2 * (secondChild + 1); if (comp(first + secondChild, first +
  (secondChild - 1))) secondChild--;\<close>
\<close>

definition secondChild :: "('a \<Rightarrow> 'a \<Rightarrow> bool) \<Rightarrow> 'a list \<Rightarrow> nat \<Rightarrow> nat" where
  "secondChild cmp xs hole =
     (if cmp (xs ! (2 * (hole + 1))) (xs ! (2 * (hole + 1) - 1))
      then 2 * (hole + 1) - 1 else 2 * (hole + 1))"

text \<open>The first loop of \<open>__adjust_heap\<close>; the result is the range and the place of the hole.\<close>

function adjust_heap_down ::
  "('a \<Rightarrow> 'a \<Rightarrow> bool) \<Rightarrow> 'a list \<Rightarrow> nat \<Rightarrow> nat \<Rightarrow> 'a list \<times> nat" where
  "adjust_heap_down cmp xs len hole =
     (if hole < (len - 1) div 2
      then adjust_heap_down cmp (xs[hole := xs ! secondChild cmp xs hole]) len
             (secondChild cmp xs hole)
      else (xs, hole))"
  by pat_completeness auto
termination
  by (relation "measure (\<lambda>(cmp, xs, len, hole). len - hole)") (auto simp: secondChild_def)

declare adjust_heap_down.simps [simp del]

definition adjust_heap ::
  "('a \<Rightarrow> 'a \<Rightarrow> bool) \<Rightarrow> 'a list \<Rightarrow> nat \<Rightarrow> nat \<Rightarrow> 'a \<Rightarrow> 'a list" where
  "adjust_heap cmp xs holeIndex len v =
     (case adjust_heap_down cmp xs len holeIndex of
        (xs1, hole) \<Rightarrow>
          if even len \<and> 2 \<le> len \<and> hole = (len - 2) div 2
          then push_heap_value cmp (xs1[hole := xs1 ! (2 * (hole + 1) - 1)])
                 (2 * (hole + 1) - 1) holeIndex v
          else push_heap_value cmp xs1 hole holeIndex v)"

text \<open>
  \<open>__pop_heap(first, last, result)\<close> on the first \<open>n\<close> elements, with the result at place
  \<open>n\<close>.
\<close>

definition pop_heap_value :: "('a \<Rightarrow> 'a \<Rightarrow> bool) \<Rightarrow> 'a list \<Rightarrow> nat \<Rightarrow> 'a list" where
  "pop_heap_value cmp xs n = adjust_heap cmp (xs[n := xs ! 0]) 0 n (xs ! n)"

definition push_heap :: "('a \<Rightarrow> 'a \<Rightarrow> bool) \<Rightarrow> 'a list \<Rightarrow> 'a list" where
  "push_heap cmp xs =
     (if xs = [] then xs else push_heap_value cmp xs (length xs - 1) 0 (last xs))"

definition pop_heap :: "('a \<Rightarrow> 'a \<Rightarrow> bool) \<Rightarrow> 'a list \<Rightarrow> 'a list" where
  "pop_heap cmp xs = (if length xs > 1 then pop_heap_value cmp xs (length xs - 1) else xs)"

text \<open>\<open>sort_heap\<close>: \<open>while (last - first > 1) { --last; __pop_heap(first, last, last); }\<close>\<close>

fun sort_heap_upto :: "('a \<Rightarrow> 'a \<Rightarrow> bool) \<Rightarrow> 'a list \<Rightarrow> nat \<Rightarrow> 'a list" where
  "sort_heap_upto cmp xs 0 = xs"
| "sort_heap_upto cmp xs (Suc n) =
     (if n = 0 then xs else sort_heap_upto cmp (pop_heap_value cmp xs n) n)"

definition sort_heap :: "('a \<Rightarrow> 'a \<Rightarrow> bool) \<Rightarrow> 'a list \<Rightarrow> 'a list" where
  "sort_heap cmp xs = sort_heap_upto cmp xs (length xs)"

definition pop_back :: "'a list \<Rightarrow> fault + 'a list" where
  "pop_back xs = (if xs = [] then Inl OutOfRange else Inr (butlast xs))"

text \<open>
  The comparisons of \<open>heap.size()\<close>, a \<open>size_t\<close>, with \<open>k\<close>, an \<open>int32_t\<close>: \<open>k\<close> is converted
  to \<open>size_t\<close> (64 bits) first, so a negative \<open>k\<close> is a number no size reaches.
\<close>

definition to_size_t :: "int \<Rightarrow> int" where
  "to_size_t k = k mod 2 ^ 64"

definition front :: "'a list \<Rightarrow> fault + 'a" where
  "front xs = (case xs of [] \<Rightarrow> Inl OutOfRange | x # _ \<Rightarrow> Inr x)"

text \<open>
  The test \<open>heap.size() == k && score < heap.front().first\<close> of \<open>findKBest\<close> and \<open>dfs\<close>;
  the heap's first element is read only when the sizes are equal.
\<close>

definition fullAndBelow :: "int \<Rightarrow> Heap \<Rightarrow> real \<Rightarrow> fault + bool" where
  "fullAndBelow k heap score =
     (if int (length heap) = to_size_t k
      then andThen (front heap) (\<lambda>f. Inr (score < fst f))
      else Inr False)"

text \<open>
  \<open>heap.push_back(p); push_heap(...); if (heap.size() > k) { pop_heap(...);
  heap.pop_back(); }\<close>, as in \<open>findKBest\<close> and at the leaves of \<open>dfs\<close>.
\<close>

definition pushAndTrim :: "int \<Rightarrow> Heap \<Rightarrow> real \<times> int \<Rightarrow> fault + Heap" where
  "pushAndTrim k heap p =
     (let h1 = push_heap comparePairs (heap @ [p])
      in if int (length h1) > to_size_t k
         then pop_back (pop_heap comparePairs h1)
         else Inr h1)"

subsection \<open>Prediction\<close>

text \<open>
  The body of the loop of \<open>findKBest\<close> for the class \<open>i\<close>.  \<open>None\<close> is one of the two
  \<open>continue\<close> statements: the class is skipped and the heap stays as it is.  \<open>Some\<close> is
  the heap after the push and the trim.
\<close>

definition findKBestBody :: "int \<Rightarrow> real \<Rightarrow> Vector \<Rightarrow> Heap \<Rightarrow> int \<Rightarrow> fault + Heap option" where
  "findKBestBody k threshold output heap i =
     andThen (elemAt output i) (\<lambda>x.
       if x < threshold then Inr None
       else andThen (if int (length heap) = to_size_t k
                     then andThen (std_log x) (\<lambda>s. andThen (front heap) (\<lambda>f. Inr (s < fst f)))
                     else Inr False) (\<lambda>skip.
            if skip then Inr None
            else andThen (std_log x) (\<lambda>s.
                 andThen (pushAndTrim k heap (s, i)) (\<lambda>h. Inr (Some h)))))"

definition findKBest ::
  "Model \<Rightarrow> int \<Rightarrow> real \<Rightarrow> Heap \<Rightarrow> Vector \<Rightarrow> Vector \<Rightarrow> fault + (Heap \<times> Vector)" where
  "findKBest m k threshold heap hidden output =
     andThen (computeOutputSoftmax m hidden output) (\<lambda>out.
     andThen (forEach [0 .. osz_' m - 1] heap
                (\<lambda>h i. andThen (findKBestBody k threshold out h i)
                          (\<lambda>r. Inr (case r of None \<Rightarrow> h | Some h' \<Rightarrow> h')))) (\<lambda>h.
     Inr (h, out)))"

text \<open>
  \<open>dfs\<close> calls itself on both children; nothing bounds the depth on a tree whose links
  form a cycle, so not returning is \<open>None\<close>.
\<close>

partial_function (option) dfs ::
  "Model \<Rightarrow> int \<Rightarrow> real \<Rightarrow> int \<Rightarrow> real \<Rightarrow> Heap \<Rightarrow> Vector \<Rightarrow> (fault + Heap) option" where
  "dfs m k threshold node score heap hidden =
     (case std_log threshold of Inl e \<Rightarrow> Some (Inl e) | Inr lt \<Rightarrow>
     (if score < lt then Some (Inr heap) else
     (case fullAndBelow k heap score of Inl e \<Rightarrow> Some (Inl e) | Inr below \<Rightarrow>
     (if below then Some (Inr heap) else
     (case nodeAt (tree m) node of Inl e \<Rightarrow> Some (Inl e) | Inr nd \<Rightarrow>
     (if left nd = - 1 \<and> right nd = - 1 then Some (pushAndTrim k heap (score, node)) else
     (case (if quant_' m \<and> qout (args_' m)
            then andThen (deref (qwo_' m)) (\<lambda>q. Matrix_dotRow q hidden (node - osz_' m))
            else Matrix_dotRow (wo_' m) hidden (node - osz_' m)) of
        Inl e \<Rightarrow> Some (Inl e) | Inr f0 \<Rightarrow>
     (case std_log (1 - 1 / (1 + exp (- f0))) of Inl e \<Rightarrow> Some (Inl e) | Inr l1 \<Rightarrow>
      Option.bind (dfs m k threshold (left nd) (score + l1) heap hidden) (\<lambda>r1.
       (case r1 of Inl e \<Rightarrow> Some (Inl e) | Inr heap1 \<Rightarrow>
       (case std_log (1 / (1 + exp (- f0))) of Inl e \<Rightarrow> Some (Inl e) | Inr l2 \<Rightarrow>
        dfs m k threshold (right nd) (score + l2) heap1 hidden)))))))))))"

text \<open>
  \<open>predict\<close> with the caller's buffers \<open>heap\<close>, \<open>hidden\<close> and \<open>output\<close>, which it changes
  in place; the result is the three buffers after the call.  A \<open>throw\<close> leaves the
  function before any of them is written.
\<close>

definition predict ::
  "Model \<Rightarrow> int list \<Rightarrow> int \<Rightarrow> real \<Rightarrow> Heap \<times> Vector \<times> Vector
     \<Rightarrow> fault + (Heap \<times> Vector \<times> Vector)" where
  "predict m input k threshold bufs =
     (case bufs of (heap, hidden, output) \<Rightarrow>
      if k \<le> 0 then Inl (InvalidArgument ''k needs to be 1 or higher!'')
      else if model (args_' m) \<noteq> model_name.sup
      then Inl (InvalidArgument ''Model needs to be supervised for prediction!'')
      else andThen (computeHidden m input hidden) (\<lambda>h.
           andThen (if loss (args_' m) = loss_name.hs
                    then (case dfs m k threshold (2 * osz_' m - 2) 0 heap h of
                            None \<Rightarrow> Inl Diverges
                          | Some r \<Rightarrow> andThen r (\<lambda>heap1. Inr (heap1, output)))
                    else findKBest m k threshold heap h output) (\<lambda>(heap1, out).
           Inr (sort_heap comparePairs heap1, h, out))))"

text \<open>\<open>predict\<close> on the model's own \<open>hidden_\<close> and \<open>output_\<close>.\<close>

definition predict_own :: "Model \<Rightarrow> int list \<Rightarrow> int \<Rightarrow> real \<Rightarrow> Heap \<Rightarrow> fault + (Heap \<times> Model)" where
  "predict_own m input k threshold heap =
     andThen (predict m input k threshold (heap, hidden_' m, output_' m)) (\<lambda>(heap1, h, out).
       Inr (heap1, m\<lparr>hidden_' := h, output_' := out\<rparr>))"

subsection \<open>The tables built from the counts\<close>

text \<open>
  The table of negatives is the one place of model.cc where the rounding of the
  floating-point operations decides a whole number, the number of rounds of a loop.
  There the roundings are explicit.  For a real number \<open>x\<close>, \<open>to_float fl x\<close> is the value
  of type \<open>float\<close> (the source's \<open>real\<close>) that a conversion or an operation with the exact
  result \<open>x\<close> delivers, \<open>to_double fl x\<close> the same for \<open>double\<close>, and \<open>pow_0_5 fl x\<close> is the
  \<open>double\<close> that \<open>pow(x, 0.5)\<close> returns for a \<open>double\<close> \<open>x\<close> that is not negative.  The three are
  parameters, with nothing assumed about them: they stand for the floating-point
  formats and the mathematical library of the platform.  With the identity for the two
  conversions and the square root for \<open>pow_0_5\<close> the operations are the exact ones of the
  rest of the embedding.  Every operation is rounded to the type the C++ rules give it.
\<close>

record Rounding =
  to_float :: "real \<Rightarrow> real"
  to_double :: "real \<Rightarrow> real"
  pow_0_5 :: "real \<Rightarrow> real"

text \<open>
  The inner loop of \<open>initTableNegatives\<close>,
  \<open>for (size_t j = 0; j < c * NEGATIVE_TABLE_SIZE / z; j++) negatives_.push_back(i);\<close>
  with \<open>x\<close> for the bound \<open>c * NEGATIVE_TABLE_SIZE / z\<close>; the counter \<open>j\<close> is converted to
  \<open>float\<close> for the comparison.  Nothing bounds the number of rounds for an arbitrary
  conversion, so not returning is \<open>None\<close>.
\<close>

partial_function (option) pushNegatives ::
  "Rounding \<Rightarrow> real \<Rightarrow> nat \<Rightarrow> int \<Rightarrow> int list \<Rightarrow> int list option" where
  "pushNegatives fl x j i negs =
     (if to_float fl (real j) < x then pushNegatives fl x (j + 1) i (negs @ [i])
      else Some negs)"

text \<open>
  \<open>pow(counts[i], 0.5)\<close>: the count is converted to \<open>double\<close>; the result is a \<open>double\<close>,
  and not a number for a negative count.
\<close>

definition pow_half :: "Rounding \<Rightarrow> int \<Rightarrow> fault + real" where
  "pow_half fl c =
     (if c < 0 then Inl NotANumber else Inr (pow_0_5 fl (to_double fl (real_of_int c))))"

text \<open>
  The first loop of \<open>initTableNegatives\<close>, \<open>z += pow(counts[i], 0.5)\<close> from \<open>z = 0.0\<close>: the
  sum is taken in \<open>double\<close> and stored in the \<open>float\<close> \<open>z\<close>.
\<close>

definition sumSqrt :: "Rounding \<Rightarrow> int list \<Rightarrow> fault + real" where
  "sumSqrt fl counts =
     forEach counts 0
       (\<lambda>z c. andThen (pow_half fl c) (\<lambda>p. Inr (to_float fl (to_double fl (z + p)))))"

text \<open>
  The bound \<open>c * NEGATIVE_TABLE_SIZE / z\<close> of the inner loop for \<open>real c = pow(count,
  0.5)\<close>: the power is stored in the \<open>float\<close> \<open>c\<close>, the table size is converted to \<open>float\<close>,
  and the product and the quotient are \<open>float\<close> operations.  \<open>p\<close> is the \<open>double\<close> that \<open>pow\<close>
  returned.
\<close>

definition tableBound :: "Rounding \<Rightarrow> int \<Rightarrow> real \<Rightarrow> real \<Rightarrow> real" where
  "tableBound fl T p z =
     to_float fl (to_float fl (to_float fl p * to_float fl (real_of_int T)) / z)"

text \<open>
  The two loops of \<open>initTableNegatives\<close>, before the shuffle.  \<open>NEGATIVE_TABLE_SIZE\<close> is
  a constant of model.h, which is not part of the source at hand: it is the parameter
  \<open>T\<close>.  The entries are added to the ones \<open>negatives_\<close> already holds.
\<close>

definition fillTableNegatives ::
  "Rounding \<Rightarrow> int \<Rightarrow> Model \<Rightarrow> int list \<Rightarrow> fault + int list" where
  "fillTableNegatives fl T m counts =
     andThen (sumSqrt fl counts) (\<lambda>z.
     forEach [0 ..< length counts] (negatives_' m)
       (\<lambda>negs i. andThen (pow_half fl (counts ! i)) (\<lambda>p.
          if z = 0 then Inl DivisionByZero
          else (case pushNegatives fl (tableBound fl T p z) 0 (int i) negs of
                  None \<Rightarrow> Inl Diverges
                | Some negs' \<Rightarrow> Inr negs'))))"

text \<open>
  \<open>std::shuffle(negatives_.begin(), negatives_.end(), rng)\<close> is the library's: the
  parameter \<open>shuffle\<close> gives, for a state of the generator and a table, the shuffled table
  and the next state.
\<close>

definition initTableNegatives ::
  "Rounding \<Rightarrow> int \<Rightarrow> (int \<Rightarrow> int list \<Rightarrow> int list \<times> int) \<Rightarrow> Model \<Rightarrow> int list
     \<Rightarrow> fault + Model" where
  "initTableNegatives fl T shuffle m counts =
     andThen (fillTableNegatives fl T m counts) (\<lambda>negs.
       case shuffle (rng m) negs of (negs', g) \<Rightarrow> Inr (m\<lparr>negatives_' := negs', rng := g\<rparr>))"

definition buildTree :: "Model \<Rightarrow> int list \<Rightarrow> fault + Model" where
  "buildTree m counts =
     andThen (buildTreeNodes (osz_' m) counts) (\<lambda>t.
     andThen (buildPaths t (osz_' m) (paths m, codes m)) (\<lambda>(ps, cs).
       Inr (m\<lparr>tree := t, paths := ps, codes := cs\<rparr>)))"

definition setTargetCounts ::
  "Rounding \<Rightarrow> int \<Rightarrow> (int \<Rightarrow> int list \<Rightarrow> int list \<times> int) \<Rightarrow> Model \<Rightarrow> int list
     \<Rightarrow> fault + Model" where
  "setTargetCounts fl T shuffle m counts =
     (if int (length counts) \<noteq> osz_' m then Inl AssertionFailed
      else andThen (if loss (args_' m) = loss_name.ns
                    then initTableNegatives fl T shuffle m counts else Inr m) (\<lambda>m1.
           if loss (args_' m1) = loss_name.hs then buildTree m1 counts else Inr m1))"

section \<open>Properties\<close>

subsection \<open>The constructor\<close>

lemma Model_fields:
  "Model wi wo args seed = Inr m \<Longrightarrow>
     wi_' m = wi \<and> wo_' m = wo \<and> args_' m = args \<and> osz_' m = int (length wo)
     \<and> hsz_' m = dim args \<and> loss_' m = 0 \<and> nexamples_' m = 1 \<and> negatives_' m = []
     \<and> negpos m = 0 \<and> quant_' m = False \<and> hidden_' m = replicate (nat (dim args)) 0
     \<and> grad_' m = replicate (nat (dim args)) 0 \<and> output_' m = replicate (length wo) 0
     \<and> rng m = seed \<and> qwi_' m = None \<and> qwo_' m = None
     \<and> paths m = [] \<and> codes m = [] \<and> tree m = []"
  by (auto simp: Model_def initLog_def initSigmoid_def split: if_splits)

lemma Model_ok: "0 \<le> dim args \<Longrightarrow> \<exists>m. Model wi wo args seed = Inr m"
  by (simp add: Model_def)

subsection \<open>The Huffman tree on four classes\<close>

lemmas buildTree_defs =
  buildTree_def buildTreeNodes_def buildPaths_def int32_ok_def int64_ok_def upto.simps
  initNode_def setNode_def andThen_def buildTreeStep_def pickMin_def nodeAt_def
  walkToRoot.simps

lemma buildTree_ascending:
  "andThen (buildTree (m\<lparr>osz_' := 4\<rparr>) [1, 2, 3, 4]) (\<lambda>m'. Inr (tree m')) =
   Inr [\<lparr>parent = 5, left = - 1, right = - 1, count = 1, binary = True\<rparr>,
        \<lparr>parent = 5, left = - 1, right = - 1, count = 2, binary = False\<rparr>,
        \<lparr>parent = 4, left = - 1, right = - 1, count = 3, binary = True\<rparr>,
        \<lparr>parent = 4, left = - 1, right = - 1, count = 4, binary = False\<rparr>,
        \<lparr>parent = 6, left = 3, right = 2, count = 7, binary = False\<rparr>,
        \<lparr>parent = 6, left = 1, right = 0, count = 3, binary = True\<rparr>,
        \<lparr>parent = - 1, left = 4, right = 5, count = 10, binary = False\<rparr>]"
  apply (simp add: buildTree_defs)
  apply (simp add: eval_nat_numeral)
  done

lemma buildTree_descending:
  "andThen (buildTree (m\<lparr>osz_' := 4\<rparr>) [4, 3, 2, 1]) (\<lambda>m'. Inr (tree m')) =
   Inr [\<lparr>parent = 6, left = - 1, right = - 1, count = 4, binary = False\<rparr>,
        \<lparr>parent = 5, left = - 1, right = - 1, count = 3, binary = True\<rparr>,
        \<lparr>parent = 4, left = - 1, right = - 1, count = 2, binary = True\<rparr>,
        \<lparr>parent = 4, left = - 1, right = - 1, count = 1, binary = False\<rparr>,
        \<lparr>parent = 5, left = 3, right = 2, count = 3, binary = False\<rparr>,
        \<lparr>parent = 6, left = 4, right = 1, count = 6, binary = True\<rparr>,
        \<lparr>parent = - 1, left = 0, right = 5, count = 10, binary = False\<rparr>]"
  apply (simp add: buildTree_defs)
  apply (simp add: eval_nat_numeral)
  done

text \<open>
  Claim C1, as amended.  The spec has the counts \<open>[1, 2, 3, 4]\<close> in non-decreasing order
  and the two least frequent leaves (0 and 1) merged first.  The code takes its leaves
  from the last index downwards (\<open>leaf = osz_ - 1\<close>, then \<open>leaf--\<close>).  For the counts
  \<open>[1, 2, 3, 4]\<close> the first internal node, at index 4, has the leaves 3 and 2 as its
  children, the two most frequent classes (counts 4 and 3), and the count 7.  For the
  counts \<open>[4, 3, 2, 1]\<close>, in non-increasing order, node 4 has the leaves 3 and 2 as its
  children, the two least frequent classes (counts 1 and 2), and the count 3.  The
  theorem gives, for both lists, the children and the count of node 4 and the counts of
  the four leaves.
\<close>

theorem buildTree_first_internal_node:
  "andThen (buildTree (m\<lparr>osz_' := 4\<rparr>) [4, 3, 2, 1])
     (\<lambda>m'. Inr (left (tree m' ! 4), right (tree m' ! 4), count (tree m' ! 4),
                map count (take 4 (tree m'))))
     = Inr (3, 2, 3, [4, 3, 2, 1])
   \<and> andThen (buildTree (m\<lparr>osz_' := 4\<rparr>) [1, 2, 3, 4])
     (\<lambda>m'. Inr (left (tree m' ! 4), right (tree m' ! 4), count (tree m' ! 4),
                map count (take 4 (tree m'))))
     = Inr (3, 2, 7, [1, 2, 3, 4])"
proof -
  have "\<And>r :: fault + Model. \<And>t. andThen r (\<lambda>m'. Inr (tree m')) = Inr t \<Longrightarrow>
          andThen r (\<lambda>m'. Inr (left (tree m' ! 4), right (tree m' ! 4), count (tree m' ! 4),
                              map count (take 4 (tree m'))))
          = Inr (left (t ! 4), right (t ! 4), count (t ! 4), map count (take 4 t))"
    by (auto simp: andThen_def split: sum.splits)
  from this [OF buildTree_descending [of m]] this [OF buildTree_ascending [of m]]
  show ?thesis by (simp add: eval_nat_numeral)
qed

text \<open>
  Claim C1 as the spec states it fails: on a model with four output classes, made by the
  constructor, \<open>buildTree\<close> with the counts \<open>[1, 2, 3, 4]\<close> gives node 4 the children 3 and
  2, not the leaves 0 and 1.
\<close>

theorem buildTree_ascending_counterexample:
  "andThen
     (andThen (Model [[0]] [[0], [0], [0], [0]]
                 \<lparr>dim = 1, loss = loss_name.hs, neg = 0, model = model_name.sup,
                    verbose = 0, qout = False\<rparr> 1)
        (\<lambda>m. buildTree m [1, 2, 3, 4]))
     (\<lambda>m'. Inr (left (tree m' ! 4), right (tree m' ! 4))) = Inr (3, 2)
   \<and> {3, 2} \<noteq> {0, 1 :: int}"
proof -
  obtain m where m: "Model [[0]] [[0], [0], [0], [0]]
      \<lparr>dim = 1, loss = loss_name.hs, neg = 0, model = model_name.sup,
         verbose = 0, qout = False\<rparr> 1 = Inr m"
    by (simp add: Model_def)
  have "osz_' m = 4" using Model_fields [OF m] by simp
  then have "m\<lparr>osz_' := 4\<rparr> = m" by simp
  with buildTree_ascending [of m]
  have "andThen (buildTree m [1, 2, 3, 4]) (\<lambda>m'. Inr (tree m')) =
    Inr [\<lparr>parent = 5, left = - 1, right = - 1, count = 1, binary = True\<rparr>,
        \<lparr>parent = 5, left = - 1, right = - 1, count = 2, binary = False\<rparr>,
        \<lparr>parent = 4, left = - 1, right = - 1, count = 3, binary = True\<rparr>,
        \<lparr>parent = 4, left = - 1, right = - 1, count = 4, binary = False\<rparr>,
        \<lparr>parent = 6, left = 3, right = 2, count = 7, binary = False\<rparr>,
        \<lparr>parent = 6, left = 1, right = 0, count = 3, binary = True\<rparr>,
        \<lparr>parent = - 1, left = 4, right = 5, count = 10, binary = False\<rparr>]"
    by simp
  then have "andThen (buildTree m [1, 2, 3, 4])
      (\<lambda>m'. Inr (left (tree m' ! 4), right (tree m' ! 4))) = Inr (3, 2)"
    by (auto simp: andThen_def eval_nat_numeral split: sum.splits)
  then show ?thesis by (simp add: m andThen_def doubleton_eq_iff)
qed

subsection \<open>An update with no input\<close>

text \<open>
  Claim C3.  For a target with \<open>0 \<le> target < osz_\<close> and any learning rate, \<open>update\<close> on
  the empty input returns with the model as it was: the two matrices, the sum of the
  losses, the number of examples and every other member are unchanged.
\<close>

theorem update_empty_input:
  "0 \<le> target \<Longrightarrow> target < osz_' m \<Longrightarrow> update m [] target lr = Inr m"
  by (simp add: update_def)

text \<open>
  The witness for C3: a model of two classes from the constructor, target 1, learning
  rate 1/10.
\<close>

theorem update_empty_input_witness:
  "andThen (Model [[0]] [[0], [0]]
              \<lparr>dim = 1, loss = loss_name.softmax, neg = 0, model = model_name.sup,
                 verbose = 0, qout = False\<rparr> 1)
     (\<lambda>m. update m [] 1 (1 / 10))
   = Model [[0]] [[0], [0]]
       \<lparr>dim = 1, loss = loss_name.softmax, neg = 0, model = model_name.sup,
          verbose = 0, qout = False\<rparr> 1"
proof -
  obtain m where m: "Model [[0]] [[0], [0]]
      \<lparr>dim = 1, loss = loss_name.softmax, neg = 0, model = model_name.sup,
         verbose = 0, qout = False\<rparr> 1 = Inr m"
    by (simp add: Model_def)
  have "osz_' m = 2" using Model_fields [OF m] by simp
  then have "update m [] 1 (1 / 10) = Inr m"
    using update_empty_input [of 1 m "1 / 10"] by simp
  then show ?thesis by (simp add: m andThen_def)
qed

subsection \<open>Prediction on an empty input\<close>

text \<open>
  Claim C9.  \<open>predict\<close> has no test for an empty input.  With \<open>k \<ge> 1\<close>, a supervised
  model and a \<open>hidden\<close> buffer of the right size, \<open>predict\<close> on the empty input goes into
  \<open>computeHidden\<close>, whose last statement divides by the length of the input, zero: both
  \<open>computeHidden\<close> and \<open>predict\<close> end in the division by zero.
\<close>

theorem predict_empty_input:
  "0 < k \<Longrightarrow> model (args_' m) = model_name.sup \<Longrightarrow> int (length hidden) = hsz_' m \<Longrightarrow>
   computeHidden m [] hidden = Inl DivisionByZero \<and>
   predict m [] k threshold (heap, hidden, output) = Inl DivisionByZero"
  by (simp add: predict_def computeHidden_def andThen_def)

text \<open>
  The witness for C9: a supervised model of two classes from the constructor, \<open>k = 1\<close>,
  the model's own buffers.
\<close>

theorem predict_empty_input_witness:
  "andThen (Model [[0]] [[0], [0]]
              \<lparr>dim = 1, loss = loss_name.softmax, neg = 0, model = model_name.sup,
                 verbose = 0, qout = False\<rparr> 1)
     (\<lambda>m. predict m [] 1 0 ([], hidden_' m, output_' m))
   = Inl DivisionByZero"
proof -
  obtain m where m: "Model [[0]] [[0], [0]]
      \<lparr>dim = 1, loss = loss_name.softmax, neg = 0, model = model_name.sup,
         verbose = 0, qout = False\<rparr> 1 = Inr m"
    by (simp add: Model_def)
  have "model (args_' m) = model_name.sup" "int (length (hidden_' m)) = hsz_' m"
    using Model_fields [OF m] by simp_all
  then have "predict m [] 1 0 ([], hidden_' m, output_' m) = Inl DivisionByZero"
    using predict_empty_input [of 1 m "hidden_' m" 0 "[]" "output_' m"] by simp
  then show ?thesis by (simp add: m andThen_def)
qed

subsection \<open>The counts under the full softmax\<close>

text \<open>
  Claim C10.  When the loss is neither negative sampling nor the hierarchical softmax,
  \<open>setTargetCounts\<close> with as many counts as there are classes returns with the model as
  it was: no table of negatives, no tree, and no other member written.
\<close>

theorem setTargetCounts_softmax_unchanged:
  "loss (args_' m) \<noteq> loss_name.ns \<Longrightarrow> loss (args_' m) \<noteq> loss_name.hs \<Longrightarrow>
   int (length counts) = osz_' m \<Longrightarrow> setTargetCounts fl T shuffle m counts = Inr m"
  by (simp add: setTargetCounts_def andThen_def)

text \<open>
  The witness for C10: a softmax model of two classes from the constructor, the counts
  \<open>[5, 3]\<close>, a table size of 10, exact operations and a shuffle that reverses the table.
\<close>

theorem setTargetCounts_softmax_unchanged_witness:
  "andThen (Model [[0]] [[0], [0]]
              \<lparr>dim = 1, loss = loss_name.softmax, neg = 0, model = model_name.sup,
                 verbose = 0, qout = False\<rparr> 1)
     (\<lambda>m. setTargetCounts \<lparr>to_float = (\<lambda>x. x), to_double = (\<lambda>x. x), pow_0_5 = sqrt\<rparr>
            10 (\<lambda>g xs. (rev xs, g + 1)) m [5, 3])
   = Model [[0]] [[0], [0]]
       \<lparr>dim = 1, loss = loss_name.softmax, neg = 0, model = model_name.sup,
          verbose = 0, qout = False\<rparr> 1"
proof -
  obtain m where m: "Model [[0]] [[0], [0]]
      \<lparr>dim = 1, loss = loss_name.softmax, neg = 0, model = model_name.sup,
         verbose = 0, qout = False\<rparr> 1 = Inr m"
    by (simp add: Model_def)
  have "loss (args_' m) = loss_name.softmax" "osz_' m = 2"
    using Model_fields [OF m] by simp_all
  then have "setTargetCounts \<lparr>to_float = (\<lambda>x. x), to_double = (\<lambda>x. x), pow_0_5 = sqrt\<rparr>
      10 (\<lambda>g xs. (rev xs, g + 1)) m [5, 3] = Inr m"
    using setTargetCounts_softmax_unchanged [of m "[5, 3]"
        "\<lparr>to_float = (\<lambda>x. x), to_double = (\<lambda>x. x), pow_0_5 = sqrt\<rparr>" 10
        "\<lambda>g xs. (rev xs, g + 1)"] by simp
  then show ?thesis by (simp add: m andThen_def)
qed

subsection \<open>The negative sample\<close>

lemma getNegativeLoop_result:
  assumes "getNegativeLoop negs pos target = Some r"
  shows "\<forall>negative pos'. r = Inr (negative, pos') \<longrightarrow> negative \<noteq> target"
  by (rule getNegativeLoop.raw_induct [OF _ assms])
     (fastforce simp: Let_def split: if_splits)

lemma getNegativeLoop_differs:
  "getNegativeLoop negs pos target = Some (Inr (negative, pos')) \<Longrightarrow> negative \<noteq> target"
  using getNegativeLoop_result by blast

text \<open>
  The loop returns as soon as some entry, \<open>d\<close> places after the cursor (counted around
  the end of the table), is not the target.
\<close>

lemma getNegativeLoop_returns:
  "pos < length negs \<Longrightarrow> negs ! ((pos + d) mod length negs) \<noteq> target \<Longrightarrow>
   \<exists>negative pos'. getNegativeLoop negs pos target = Some (Inr (negative, pos'))"
proof (induction d arbitrary: pos)
  case 0
  then show ?case by (subst getNegativeLoop.simps) (simp add: Let_def)
next
  case (Suc d)
  show ?case
  proof (cases "negs ! pos = target")
    case False
    with Suc.prems show ?thesis by (subst getNegativeLoop.simps) (auto simp add: Let_def)
  next
    case True
    have "0 < length negs" using Suc.prems(1) by linarith
    then have lt: "(pos + 1) mod length negs < length negs" by (rule mod_less_divisor)
    have "((pos + 1) mod length negs + d) mod length negs = (pos + Suc d) mod length negs"
      by (simp add: mod_add_left_eq)
    with Suc.prems have "negs ! (((pos + 1) mod length negs + d) mod length negs) \<noteq> target"
      by simp
    from Suc.IH [OF lt this] obtain negative pos' where
      "getNegativeLoop negs ((pos + 1) mod length negs) target = Some (Inr (negative, pos'))"
      by blast
    with True Suc.prems show ?thesis by (subst getNegativeLoop.simps) (simp add: Let_def)
  qed
qed

lemma getNegativeLoop_total:
  assumes "pos < length negs" "\<exists>x\<in>set negs. x \<noteq> target"
  shows "\<exists>negative pos'. getNegativeLoop negs pos target = Some (Inr (negative, pos'))"
proof -
  from assms(2) obtain j where j: "j < length negs" "negs ! j \<noteq> target"
    by (auto simp: in_set_conv_nth)
  have "(pos + (j + length negs - pos)) mod length negs = j"
    using assms(1) j(1) by simp
  with j(2) have "negs ! ((pos + (j + length negs - pos)) mod length negs) \<noteq> target" by simp
  from getNegativeLoop_returns [OF assms(1) this] show ?thesis .
qed

text \<open>
  Claim C6.  Whatever the target, a value that \<open>getNegative\<close> returns is not the target.
  The call does return, with such a value, when the cursor \<open>negpos\<close> is inside the table
  and the table has an entry other than the target; on a table that holds the target
  only, the loop of the source never ends and nothing is returned.
\<close>

theorem getNegative_never_target:
  "(\<forall>negative m'. getNegative m target = Inr (negative, m') \<longrightarrow> negative \<noteq> target) \<and>
   (negpos m < length (negatives_' m) \<and> (\<exists>x\<in>set (negatives_' m). x \<noteq> target) \<longrightarrow>
      (\<exists>negative m'. getNegative m target = Inr (negative, m')))"
proof (intro conjI allI impI)
  fix negative m' assume "getNegative m target = Inr (negative, m')"
  then show "negative \<noteq> target"
    by (auto simp: getNegative_def andThen_def split: option.splits sum.splits
             dest: getNegativeLoop_differs)
next
  assume "negpos m < length (negatives_' m) \<and> (\<exists>x\<in>set (negatives_' m). x \<noteq> target)"
  then obtain negative pos' where
    "getNegativeLoop (negatives_' m) (negpos m) target = Some (Inr (negative, pos'))"
    using getNegativeLoop_total by blast
  then show "\<exists>negative m'. getNegative m target = Inr (negative, m')"
    by (simp add: getNegative_def andThen_def)
qed

text \<open>
  The witness for C6: a model from the constructor with the table \<open>[0, 1, 0]\<close> and the
  cursor at 0; for the target 0 the call returns, and what it returns is not 0.
\<close>

theorem getNegative_never_target_witness:
  "case Model [[0]] [[0], [0]]
          \<lparr>dim = 1, loss = loss_name.ns, neg = 1, model = model_name.sup,
             verbose = 0, qout = False\<rparr> 1 of
     Inl e \<Rightarrow> False
   | Inr m \<Rightarrow>
       negpos (m\<lparr>negatives_' := [0, 1, 0]\<rparr>) < length (negatives_' (m\<lparr>negatives_' := [0, 1, 0]\<rparr>))
       \<and> (\<exists>x\<in>set (negatives_' (m\<lparr>negatives_' := [0, 1, 0]\<rparr>)). x \<noteq> 0)
       \<and> (\<exists>negative m'. getNegative (m\<lparr>negatives_' := [0, 1, 0]\<rparr>) 0 = Inr (negative, m')
             \<and> negative \<noteq> 0)"
proof -
  obtain m where m: "Model [[0]] [[0], [0]]
      \<lparr>dim = 1, loss = loss_name.ns, neg = 1, model = model_name.sup,
         verbose = 0, qout = False\<rparr> 1 = Inr m"
    by (simp add: Model_def)
  have pos: "negpos (m\<lparr>negatives_' := [0, 1, 0]\<rparr>) < length (negatives_' (m\<lparr>negatives_' := [0, 1, 0]\<rparr>))"
    using Model_fields [OF m] by simp
  have other: "\<exists>x\<in>set (negatives_' (m\<lparr>negatives_' := [0, 1, 0]\<rparr>)). x \<noteq> 0"
    by simp
  from getNegative_never_target [of "m\<lparr>negatives_' := [0, 1, 0]\<rparr>" 0] pos other
  have "\<exists>negative m'. getNegative (m\<lparr>negatives_' := [0, 1, 0]\<rparr>) 0 = Inr (negative, m')
          \<and> negative \<noteq> 0"
    by blast
  with pos other show ?thesis by (simp add: m)
qed

subsection \<open>The scan of \<open>findKBest\<close>\<close>

lemma length_push_heap_value [simp]:
  "length (push_heap_value cmp xs holeIndex topIndex v) = length xs"
proof (induction cmp xs holeIndex topIndex v rule: push_heap_value.induct)
  case (1 cmp xs holeIndex topIndex v)
  then show ?case by (subst push_heap_value.simps) simp
qed

lemma length_adjust_heap_down [simp]:
  "length (fst (adjust_heap_down cmp xs len hole)) = length xs"
proof (induction cmp xs len hole rule: adjust_heap_down.induct)
  case (1 cmp xs len hole)
  then show ?case by (subst adjust_heap_down.simps) simp
qed

lemma length_adjust_heap [simp]: "length (adjust_heap cmp xs holeIndex len v) = length xs"
proof -
  obtain xs1 hole where r: "adjust_heap_down cmp xs len holeIndex = (xs1, hole)"
    by (cases "adjust_heap_down cmp xs len holeIndex") auto
  have "length xs1 = length xs"
    using length_adjust_heap_down [of cmp xs len holeIndex] by (simp add: r)
  then show ?thesis by (simp add: adjust_heap_def r)
qed

lemma length_push_heap [simp]: "length (push_heap cmp xs) = length xs"
  by (simp add: push_heap_def)

lemma length_pop_heap [simp]: "length (pop_heap cmp xs) = length xs"
  by (simp add: pop_heap_def pop_heap_value_def)










subsection \<open>The failures of \<open>predict\<close>\<close>

lemma isInvalidArgument_simps [simp]:
  "isInvalidArgument (Inl e) = invalidArgumentFault e"
  "isInvalidArgument (Inr x) = False"
  by (simp_all add: isInvalidArgument_def)

lemma isInvalidArgument_iff: "isInvalidArgument r = (\<exists>msg. r = Inl (InvalidArgument msg))"
proof (cases r)
  case (Inl e)
  then show ?thesis by (cases e) simp_all
qed simp

lemma nia_andThen [simp]:
  "isInvalidArgument (andThen r f) = (isInvalidArgument r \<or> (\<exists>x. r = Inr x \<and> isInvalidArgument (f x)))"
  by (cases r) (simp_all add: andThen_def)

lemma nia_forEach:
  "(\<And>s x. \<not> isInvalidArgument (body s x)) \<Longrightarrow> \<not> isInvalidArgument (forEach xs s body)"
  by (induction xs arbitrary: s) simp_all

lemma nia_prims [simp]:
  "\<not> isInvalidArgument (elemAt xs i)"
  "\<not> isInvalidArgument (rowAt A i v)"
  "\<not> isInvalidArgument (deref p)"
  "\<not> isInvalidArgument (std_log x)"
  "\<not> isInvalidArgument (front ys)"
  "\<not> isInvalidArgument (nodeAt t i)"
  "\<not> isInvalidArgument (Vector_mul_matrix out A v)"
  "\<not> isInvalidArgument (pop_back zs)"
  by (simp_all add: elemAt_def rowAt_def deref_def std_log_def front_def nodeAt_def
        Vector_mul_matrix_def pop_back_def split: option.splits list.splits)

lemma nia_rows [simp]:
  "\<not> isInvalidArgument (Vector_addRow v A i)"
  "\<not> isInvalidArgument (Matrix_dotRow A v i)"
  by (simp_all add: Vector_addRow_def Matrix_dotRow_def)

lemma nia_pushAndTrim [simp]: "\<not> isInvalidArgument (pushAndTrim k heap p)"
  by (simp add: pushAndTrim_def Let_def)

lemma nia_fullAndBelow [simp]: "\<not> isInvalidArgument (fullAndBelow k heap score)"
  by (simp add: fullAndBelow_def)

lemma nia_computeHidden [simp]: "\<not> isInvalidArgument (computeHidden m input hidden)"
proof -
  have "\<not> isInvalidArgument (forEach input (Vector_zero hidden)
          (\<lambda>h it. if quant_' m then andThen (deref (qwi_' m)) (\<lambda>q. Vector_addRow h q it)
                   else Vector_addRow h (wi_' m) it))"
    by (rule nia_forEach) simp
  then show ?thesis by (simp add: computeHidden_def)
qed

lemma nia_computeOutputSoftmax [simp]: "\<not> isInvalidArgument (computeOutputSoftmax m hidden output)"
proof -
  have 1: "\<And>out0 max0. \<not> isInvalidArgument (forEach [0 .. osz_' m - 1] max0
                (\<lambda>mx i. andThen (elemAt out0 i) (\<lambda>x. Inr (max x mx))))"
    by (rule nia_forEach) simp
  have 2: "\<And>out0 mx. \<not> isInvalidArgument (forEach [0 .. osz_' m - 1] (out0, 0)
                (\<lambda>(out, z) i. andThen (elemAt out i) (\<lambda>x.
                     let e = exp (x - mx) in Inr (out[nat i := e], z + e))))"
    by (rule nia_forEach) (simp add: Let_def split: prod.splits)
  have 3: "\<And>out1 z. \<not> isInvalidArgument (forEach [0 .. osz_' m - 1] out1
       (\<lambda>out i. andThen (elemAt out i) (\<lambda>x.
            if z = 0 then Inl DivisionByZero else Inr (out[nat i := x / z]))))"
    by (rule nia_forEach) simp
  show ?thesis
    by (simp add: computeOutputSoftmax_def 1 2 3 split: prod.splits)
qed

lemma nia_findKBestBody [simp]: "\<not> isInvalidArgument (findKBestBody k threshold output heap i)"
  by (simp add: findKBestBody_def)

lemma nia_findKBest [simp]: "\<not> isInvalidArgument (findKBest m k threshold heap hidden output)"
proof -
  have "\<And>out. \<not> isInvalidArgument (forEach [0 .. osz_' m - 1] heap
                (\<lambda>h i. andThen (findKBestBody k threshold out h i)
                          (\<lambda>r. Inr (case r of None \<Rightarrow> h | Some h' \<Rightarrow> h'))))"
    by (rule nia_forEach) simp
  then show ?thesis by (simp add: findKBest_def)
qed

lemma Inl_not_invalid:
  "r = Inl e \<Longrightarrow> \<not> isInvalidArgument r \<Longrightarrow> \<not> invalidArgumentFault e"
  by simp

lemma dfs_faults:
  "std_log x = Inl e \<Longrightarrow> \<not> invalidArgumentFault e"
  "fullAndBelow k heap score = Inl e \<Longrightarrow> \<not> invalidArgumentFault e"
  "nodeAt t i = Inl e \<Longrightarrow> \<not> invalidArgumentFault e"
  "pushAndTrim k heap p = Inl e \<Longrightarrow> \<not> invalidArgumentFault e"
  "Matrix_dotRow A v i = Inl e \<Longrightarrow> \<not> invalidArgumentFault e"
  "andThen (deref q) (\<lambda>q. Matrix_dotRow q v i) = Inl e \<Longrightarrow> \<not> invalidArgumentFault e"
  by (erule Inl_not_invalid, simp)+

lemma nia_dfs:
  assumes "dfs m k threshold node score heap hidden = Some r"
  shows "\<not> isInvalidArgument r"
  by (rule dfs.raw_induct [OF _ assms])
     (auto split: sum.splits if_splits Option.bind_splits dest: dfs_faults
           simp del: nia_andThen)

text \<open>
  Claim C7.  \<open>predict\<close> ends in a \<open>std::invalid_argument\<close> exception in exactly two
  cases: when \<open>k \<le> 0\<close>, and when the model is not the supervised one.  In both the
  exception is thrown by the first statements of the function, whatever the input and
  the buffers are: the outcome carries no buffer, nothing of them was written, neither
  \<open>computeHidden\<close> nor a search was run (on an input where \<open>computeHidden\<close> would end in
  another fault, the outcome is still the exception).  In every other case no part of
  \<open>predict\<close> throws it.
\<close>

theorem predict_invalid_argument:
  "(\<exists>msg. predict m input k threshold bufs = Inl (InvalidArgument msg))
     = (k \<le> 0 \<or> model (args_' m) \<noteq> model_name.sup)
   \<and> (k \<le> 0 \<longrightarrow>
        predict m input k threshold bufs = Inl (InvalidArgument ''k needs to be 1 or higher!''))
   \<and> (0 < k \<and> model (args_' m) \<noteq> model_name.sup \<longrightarrow>
        predict m input k threshold bufs
          = Inl (InvalidArgument ''Model needs to be supervised for prediction!''))"
proof -
  obtain heap hidden out where bufs: "bufs = (heap, hidden, out)" by (cases bufs) auto
  have dfs: "\<And>h. \<not> isInvalidArgument (case dfs m k threshold (2 * osz_' m - 2) 0 heap h of
                            None \<Rightarrow> Inl Diverges
                          | Some r \<Rightarrow> andThen r (\<lambda>heap1. Inr (heap1, out)))"
    by (auto split: option.splits dest: nia_dfs)
  have "0 < k \<Longrightarrow> model (args_' m) = model_name.sup \<Longrightarrow>
      \<not> isInvalidArgument (predict m input k threshold bufs)"
    using dfs by (simp add: predict_def bufs split: prod.splits)
  then show ?thesis
    unfolding isInvalidArgument_iff
    by (auto simp: predict_def bufs)
qed

text \<open>
  The witness for C7: \<open>k = 0\<close> on a supervised model, and \<open>k = 1\<close> on a \<open>cbow\<close> model,
  both from the constructor.
\<close>

theorem predict_invalid_argument_witness:
  "andThen (Model [[0]] [[0], [0]]
              \<lparr>dim = 1, loss = loss_name.softmax, neg = 0, model = model_name.sup,
                 verbose = 0, qout = False\<rparr> 1)
     (\<lambda>m. predict m [0] 0 0 ([], [0], [0, 0]))
     = Inl (InvalidArgument ''k needs to be 1 or higher!'')
   \<and> andThen (Model [[0]] [[0], [0]]
              \<lparr>dim = 1, loss = loss_name.softmax, neg = 0, model = model_name.cbow,
                 verbose = 0, qout = False\<rparr> 1)
     (\<lambda>m. predict m [0] 1 0 ([], [0], [0, 0]))
     = Inl (InvalidArgument ''Model needs to be supervised for prediction!'')"
proof -
  obtain m where m: "Model [[0]] [[0], [0]]
      \<lparr>dim = 1, loss = loss_name.softmax, neg = 0, model = model_name.sup,
         verbose = 0, qout = False\<rparr> 1 = Inr m"
    by (simp add: Model_def)
  obtain m' where m': "Model [[0]] [[0], [0]]
      \<lparr>dim = 1, loss = loss_name.softmax, neg = 0, model = model_name.cbow,
         verbose = 0, qout = False\<rparr> 1 = Inr m'"
    by (simp add: Model_def)
  have "model (args_' m') \<noteq> model_name.sup" using Model_fields [OF m'] by simp
  with predict_invalid_argument [of m "[0]" 0 0 "([], [0], [0, 0])"]
       predict_invalid_argument [of m' "[0]" 1 0 "([], [0], [0, 0])"]
  show ?thesis by (simp add: m m' andThen_def)
qed

subsection \<open>The size of the table of negatives\<close>

text \<open>
  The inner loop pushes one entry for every counter below the bound, as long as the
  counters up to the bound rounded up are converted to \<open>float\<close> without a change.
\<close>

lemma pushNegatives_rounds:
  assumes "\<forall>j \<le> nat \<lceil>x\<rceil>. to_float fl (real j) = real j" "j \<le> nat \<lceil>x\<rceil>"
  shows "pushNegatives fl x j i negs = Some (negs @ replicate (nat \<lceil>x\<rceil> - j) i)"
  using assms(2)
proof (induction "nat \<lceil>x\<rceil> - j" arbitrary: j negs)
  case 0
  then have j: "j = nat \<lceil>x\<rceil>" by arith
  have "to_float fl (real j) = real j" using assms(1) "0.prems" by simp
  moreover have "\<not> real j < x" unfolding j by linarith
  ultimately show ?case using j by (subst pushNegatives.simps) simp
next
  case (Suc n)
  then have lt: "j < nat \<lceil>x\<rceil>" by simp
  have "to_float fl (real j) = real j" using assms(1) Suc.prems by simp
  moreover have "real j < x" using lt by linarith
  moreover have "pushNegatives fl x (j + 1) i (negs @ [i])
      = Some ((negs @ [i]) @ replicate (nat \<lceil>x\<rceil> - (j + 1)) i)"
    using Suc.hyps(1) [of "j + 1" "negs @ [i]"] Suc.hyps(2) lt by simp
  moreover have "nat \<lceil>x\<rceil> - j = Suc (nat \<lceil>x\<rceil> - (j + 1))" using lt by simp
  ultimately show ?case
    by (subst pushNegatives.simps) (simp add: replicate_app_Cons_same)
qed

lemma fill_loop:
  assumes "list_all (\<lambda>i. i < length counts \<and> 0 \<le> counts ! i
             \<and> (\<forall>j \<le> nat \<lceil>tableBound fl T (pow_0_5 fl (to_double fl (real_of_int (counts ! i)))) z\<rceil>.
                   to_float fl (real j) = real j)) idx"
    and "z \<noteq> 0"
  shows "forEach idx negs
     (\<lambda>negs i. andThen (pow_half fl (counts ! i)) (\<lambda>p.
          if z = 0 then Inl DivisionByZero
          else (case pushNegatives fl (tableBound fl T p z) 0 (int i) negs of
                  None \<Rightarrow> Inl Diverges
                | Some negs' \<Rightarrow> Inr negs')))
   = Inr (negs @ concat (map (\<lambda>i. replicate
            (nat \<lceil>tableBound fl T (pow_0_5 fl (to_double fl (real_of_int (counts ! i)))) z\<rceil>)
            (int i)) idx))"
proof -
  define body where "body = (\<lambda>negs i. andThen (pow_half fl (counts ! i)) (\<lambda>p.
          if z = 0 then Inl DivisionByZero
          else (case pushNegatives fl (tableBound fl T p z) 0 (int i) negs of
                  None \<Rightarrow> Inl Diverges
                | Some negs' \<Rightarrow> Inr negs')))"
  define n where
    "n = (\<lambda>i. nat \<lceil>tableBound fl T (pow_0_5 fl (to_double fl (real_of_int (counts ! i)))) z\<rceil>)"
  have step: "body negs i = Inr (negs @ replicate (n i) (int i))"
    if "0 \<le> counts ! i" "\<forall>j \<le> n i. to_float fl (real j) = real j" for negs i
  proof -
    have "pushNegatives fl
            (tableBound fl T (pow_0_5 fl (to_double fl (real_of_int (counts ! i)))) z)
            0 (int i) negs = Some (negs @ replicate (n i - 0) (int i))"
      unfolding n_def by (rule pushNegatives_rounds [OF that(2) [unfolded n_def]]) simp
    then show ?thesis
      using that(1) assms(2) by (simp add: body_def andThen_def pow_half_def)
  qed
  have pre: "list_all (\<lambda>i. 0 \<le> counts ! i \<and> (\<forall>j \<le> n i. to_float fl (real j) = real j)) idx"
    using assms(1) by (simp add: n_def list_all_iff)
  have "forEach idx negs body = Inr (negs @ concat (map (\<lambda>i. replicate (n i) (int i)) idx))"
    using pre
  proof (induction idx arbitrary: negs)
    case Nil
    show ?case by simp
  next
    case (Cons i idx)
    then show ?case by (simp add: step andThen_def)
  qed
  then show ?thesis unfolding body_def n_def .
qed

lemma andThen_Inr: "andThen (Inr x) f = f x"
  by (simp add: andThen_def)

lemma fillTableNegatives_eq:
  assumes "list_all (\<lambda>c. 0 \<le> c) counts"
    and "sumSqrt fl counts = Inr z" and "0 < z"
    and "\<forall>i < length counts.
           \<forall>j \<le> nat \<lceil>tableBound fl T (pow_0_5 fl (to_double fl (real_of_int (counts ! i)))) z\<rceil>.
             to_float fl (real j) = real j"
  shows "fillTableNegatives fl T m counts =
     Inr (negatives_' m @ concat (map (\<lambda>i. replicate
            (nat \<lceil>tableBound fl T (pow_0_5 fl (to_double fl (real_of_int (counts ! i)))) z\<rceil>)
            (int i))
          [0 ..< length counts]))"
proof -
  have "list_all (\<lambda>i. i < length counts \<and> 0 \<le> counts ! i
             \<and> (\<forall>j \<le> nat \<lceil>tableBound fl T (pow_0_5 fl (to_double fl (real_of_int (counts ! i)))) z\<rceil>.
                   to_float fl (real j) = real j)) [0 ..< length counts]"
    using assms(1,4) by (simp add: list_all_iff all_set_conv_all_nth)
  moreover have "z \<noteq> 0" using assms(3) by simp
  ultimately show ?thesis
    unfolding fillTableNegatives_def assms(2)
    by (subst andThen_Inr) (rule fill_loop)
qed

text \<open>
  Without rounding the sum of the first loop is the sum of the square roots, and the bound
  is \<open>sqrt(counts[i]) * NEGATIVE_TABLE_SIZE / z\<close>.
\<close>

lemma sumSqrt_exact:
  "sumSqrt \<lparr>to_float = (\<lambda>x. x), to_double = (\<lambda>x. x), pow_0_5 = sqrt\<rparr> [1, 4] = Inr 3"
  "sumSqrt \<lparr>to_float = (\<lambda>x. x), to_double = (\<lambda>x. x), pow_0_5 = sqrt\<rparr> [1, 1, 1] = Inr 3"
  by (simp_all add: sumSqrt_def andThen_def pow_half_def)

lemma tableBound_exact:
  "tableBound \<lparr>to_float = (\<lambda>x. x), to_double = (\<lambda>x. x), pow_0_5 = sqrt\<rparr> T p z
     = p * real_of_int T / z"
  by (simp add: tableBound_def)

text \<open>
  Claim C4, as amended.  The loop \<open>for (j = 0; j < c * NEGATIVE_TABLE_SIZE / z; j++)\<close>
  runs for every \<open>j\<close> below the bound, so it pushes the bound rounded up, not down, and
  the bound is the one the floating-point operations deliver.  Let the counts be not
  negative, let \<open>z\<close>, the sum of the powers \<open>pow(counts[i], 0.5)\<close> as the first loop
  accumulates it, be positive, and let every counter up to a class's bound rounded up be
  converted to \<open>float\<close> without a change (with 24 bits of precision this holds up to
  16777216).  Then the entries that \<open>initTableNegatives\<close> adds before the shuffle are, for
  each class \<open>i\<close> in turn, \<open>\<lceil>b\<^sub>i\<rceil>\<close> copies of \<open>i\<close>, where \<open>b\<^sub>i\<close> is the value of
  \<open>c * NEGATIVE_TABLE_SIZE / z\<close> for \<open>c = pow(counts[i], 0.5)\<close> with the power, the product
  and the quotient each rounded to \<open>float\<close>.  This holds whatever the roundings are; without
  rounding \<open>b\<^sub>i\<close> is \<open>sqrt(counts[i]) * NEGATIVE_TABLE_SIZE / \<Sum>\<^sub>j sqrt(counts[j])\<close>.
\<close>

theorem fillTableNegatives_ceiling:
  assumes "list_all (\<lambda>c. 0 \<le> c) counts"
    and "sumSqrt fl counts = Inr z" and "0 < z"
    and "\<forall>i < length counts.
           \<forall>j \<le> nat \<lceil>tableBound fl T (pow_0_5 fl (to_double fl (real_of_int (counts ! i)))) z\<rceil>.
             to_float fl (real j) = real j"
  shows "fillTableNegatives fl T m counts =
     Inr (negatives_' m @ concat (map (\<lambda>i. replicate
            (nat \<lceil>tableBound fl T (pow_0_5 fl (to_double fl (real_of_int (counts ! i)))) z\<rceil>)
            (int i))
          [0 ..< length counts]))"
  using assms by (rule fillTableNegatives_eq)

text \<open>
  The witness for C4: the counts \<open>[1, 4]\<close> and a table size of 10 on a model from the
  constructor, with the operations that do not round.  The sum \<open>z\<close> is 3, the bounds are
  10/3 and 20/3, and the table gets 4 and 7 entries.
\<close>

theorem fillTableNegatives_ceiling_witness:
  "andThen (Model [[0]] [[0], [0]]
              \<lparr>dim = 1, loss = loss_name.ns, neg = 1, model = model_name.sup,
                 verbose = 0, qout = False\<rparr> 1)
     (\<lambda>m. fillTableNegatives \<lparr>to_float = (\<lambda>x. x), to_double = (\<lambda>x. x), pow_0_5 = sqrt\<rparr>
             10 m [1, 4])
   = Inr [0, 0, 0, 0, 1, 1, 1, 1, 1, 1, 1]"
proof -
  obtain m where m: "Model [[0]] [[0], [0]]
      \<lparr>dim = 1, loss = loss_name.ns, neg = 1, model = model_name.sup,
         verbose = 0, qout = False\<rparr> 1 = Inr m"
    by (simp add: Model_def)
  have neg: "negatives_' m = []" using Model_fields [OF m] by simp
  have "fillTableNegatives \<lparr>to_float = (\<lambda>x. x), to_double = (\<lambda>x. x), pow_0_5 = sqrt\<rparr>
          10 m [1, 4] = Inr [0, 0, 0, 0, 1, 1, 1, 1, 1, 1, 1]"
    using fillTableNegatives_ceiling [OF _ sumSqrt_exact(1), of 10 m]
    by (simp add: tableBound_exact neg eval_nat_numeral)
  then show ?thesis by (simp add: m andThen_def)
qed

text \<open>
  Claim C4 as the spec states it fails.  For three classes of count 1 the powers and their
  sum 3 are whole numbers.  With a table size of 10 the bound is 10/3: rounded down this
  is 3, and each class gets 4 entries.  With a table size of 10000000 the table gets
  10000002 entries, three times 3333334, where rounding down gives three times 3333333.
  The operations here do not round; rounding 10/3 or 10000000/3 to a \<open>float\<close> gives a
  number strictly between the same two whole numbers, and the same numbers of entries.
\<close>

theorem fillTableNegatives_floor_counterexample:
  "andThen (Model [[0]] [[0], [0], [0]]
              \<lparr>dim = 1, loss = loss_name.ns, neg = 1, model = model_name.sup,
                 verbose = 0, qout = False\<rparr> 1)
     (\<lambda>m. fillTableNegatives \<lparr>to_float = (\<lambda>x. x), to_double = (\<lambda>x. x), pow_0_5 = sqrt\<rparr>
             10 m [1, 1, 1])
     = Inr [0, 0, 0, 0, 1, 1, 1, 1, 2, 2, 2, 2]
   \<and> \<lfloor>sqrt (real_of_int 1) * real_of_int 10 / (sqrt 1 + sqrt 1 + sqrt 1)\<rfloor> = 3
   \<and> andThen (Model [[0]] [[0], [0], [0]]
              \<lparr>dim = 1, loss = loss_name.ns, neg = 1, model = model_name.sup,
                 verbose = 0, qout = False\<rparr> 1)
     (\<lambda>m. andThen (fillTableNegatives
                      \<lparr>to_float = (\<lambda>x. x), to_double = (\<lambda>x. x), pow_0_5 = sqrt\<rparr>
                      10000000 m [1, 1, 1])
             (\<lambda>negs. Inr (length negs)))
     = Inr 10000002
   \<and> 3 * \<lfloor>sqrt (real_of_int 1) * real_of_int 10000000 / (sqrt 1 + sqrt 1 + sqrt 1)\<rfloor> = 9999999"
proof -
  obtain m where m: "Model [[0]] [[0], [0], [0]]
      \<lparr>dim = 1, loss = loss_name.ns, neg = 1, model = model_name.sup,
         verbose = 0, qout = False\<rparr> 1 = Inr m"
    by (simp add: Model_def)
  have neg: "negatives_' m = []" using Model_fields [OF m] by simp
  have "fillTableNegatives \<lparr>to_float = (\<lambda>x. x), to_double = (\<lambda>x. x), pow_0_5 = sqrt\<rparr>
          10 m [1, 1, 1] = Inr [0, 0, 0, 0, 1, 1, 1, 1, 2, 2, 2, 2]"
    using fillTableNegatives_eq [OF _ sumSqrt_exact(2), of 10 m]
    by (simp add: tableBound_exact neg eval_nat_numeral)
  moreover have "andThen (fillTableNegatives
                      \<lparr>to_float = (\<lambda>x. x), to_double = (\<lambda>x. x), pow_0_5 = sqrt\<rparr>
                      10000000 m [1, 1, 1])
             (\<lambda>negs. Inr (length negs)) = Inr 10000002"
    using fillTableNegatives_eq [OF _ sumSqrt_exact(2), of 10000000 m]
    by (simp add: tableBound_exact neg andThen_def)
  ultimately show ?thesis by (simp add: m andThen_def)
qed

subsection \<open>The running loss\<close>

lemma forEach_invariant:
  assumes "forEach xs s body = Inr s'" "P s"
    and "\<And>s x s'. P s \<Longrightarrow> body s x = Inr s' \<Longrightarrow> P s'"
  shows "P s'"
  using assms(1,2)
proof (induction xs arbitrary: s)
  case Nil
  then show ?case by simp
next
  case (Cons x xs)
  from Cons.prems(1) obtain s1 where s1: "body s x = Inr s1" "forEach xs s1 body = Inr s'"
    by (auto simp: andThen_def split: sum.splits)
  from assms(3) [OF Cons.prems(2) s1(1)] have "P s1" .
  from Cons.IH [OF s1(2) this] show ?case .
qed

lemma binaryLogistic_counters:
  "binaryLogistic m target label lr = Inr (l, m') \<Longrightarrow>
   loss_' m' = loss_' m \<and> nexamples_' m' = nexamples_' m"
  by (auto simp: binaryLogistic_def andThen_def Let_def split: sum.splits if_splits)

lemma getNegative_counters:
  "getNegative m target = Inr (n, m') \<Longrightarrow>
   loss_' m' = loss_' m \<and> nexamples_' m' = nexamples_' m"
  by (auto simp: getNegative_def andThen_def split: option.splits sum.splits)

lemma negativeSampling_counters:
  "negativeSampling m target lr = Inr (l, m') \<Longrightarrow>
   loss_' m' = loss_' m \<and> nexamples_' m' = nexamples_' m"
  unfolding negativeSampling_def
  apply (drule forEach_invariant
      [where P = "\<lambda>s. loss_' (snd s) = loss_' m \<and> nexamples_' (snd s) = nexamples_' m"])
    apply simp
   apply (auto simp: andThen_def split: sum.splits if_splits prod.splits
               dest!: binaryLogistic_counters getNegative_counters)
  done

lemma hierarchicalSoftmax_counters:
  "hierarchicalSoftmax m target lr = Inr (l, m') \<Longrightarrow>
   loss_' m' = loss_' m \<and> nexamples_' m' = nexamples_' m"
  unfolding hierarchicalSoftmax_def
  apply (clarsimp simp: andThen_def split: sum.splits)
  apply (drule forEach_invariant
      [where P = "\<lambda>s. loss_' (snd s) = loss_' m \<and> nexamples_' (snd s) = nexamples_' m"])
    apply simp
   apply (auto simp: andThen_def split: sum.splits if_splits prod.splits
               dest!: binaryLogistic_counters)
  done

lemma softmax_counters:
  "softmax m target lr = Inr (l, m') \<Longrightarrow>
   loss_' m' = loss_' m \<and> nexamples_' m' = nexamples_' m"
  unfolding softmax_def
  apply (clarsimp simp: andThen_def split: sum.splits)
  apply (drule forEach_invariant
      [where P = "\<lambda>s. loss_' s = loss_' m \<and> nexamples_' s = nexamples_' m"])
    apply simp
   apply (auto simp: andThen_def Let_def split: sum.splits if_splits prod.splits)
  done

lemma exampleLoss_counters:
  "exampleLoss m target lr = Inr (l, m') \<Longrightarrow>
   loss_' m' = loss_' m \<and> nexamples_' m' = nexamples_' m"
  by (auto simp: exampleLoss_def split: if_splits
           dest: negativeSampling_counters hierarchicalSoftmax_counters softmax_counters)

lemma update_counters:
  assumes "input \<noteq> []" "update m input target lr = Inr m'"
  shows "\<exists>l. updateLoss m input target lr = Inr l
           \<and> loss_' m' = loss_' m + l \<and> nexamples_' m' = nexamples_' m + 1"
proof -
  from assms obtain h l m1 where
    h: "computeHidden m input (hidden_' m) = Inr h"
    and l: "exampleLoss (m\<lparr>hidden_' := h\<rparr>) target lr = Inr (l, m1)"
    and rest: "forEach input
        (if model (args_' m1) = model_name.sup
         then m1\<lparr>loss_' := loss_' m1 + l, nexamples_' := nexamples_' m1 + 1,
                 grad_' := Vector_mul (grad_' m1) (1 / real (length input))\<rparr>
         else m1\<lparr>loss_' := loss_' m1 + l, nexamples_' := nexamples_' m1 + 1\<rparr>)
        (\<lambda>m4 it. andThen (Matrix_addRow (wi_' m4) (grad_' m4) it 1)
                    (\<lambda>w. Inr (m4\<lparr>wi_' := w\<rparr>))) = Inr m'"
    by (auto simp: update_def andThen_def Let_def split: sum.splits if_splits prod.splits)
  from exampleLoss_counters [OF l] have c: "loss_' m1 = loss_' m" "nexamples_' m1 = nexamples_' m"
    by simp_all
  have "loss_' m' = loss_' m + l \<and> nexamples_' m' = nexamples_' m + 1"
    apply (rule forEach_invariant [OF rest,
        where P = "\<lambda>s. loss_' s = loss_' m + l \<and> nexamples_' s = nexamples_' m + 1"])
     apply (simp add: c)
    apply (auto simp: andThen_def split: sum.splits)
    done
  moreover have "updateLoss m input target lr = Inr l"
    by (simp add: updateLoss_def h l andThen_def)
  ultimately show ?thesis by blast
qed

lemma updates_counters:
  assumes "updates m exs = Inr m'" "list_all (\<lambda>e. fst e \<noteq> []) exs"
  shows "loss_' m' = loss_' m + sum_list (exampleLosses m exs)
         \<and> nexamples_' m' = nexamples_' m + int (length exs)
         \<and> length (exampleLosses m exs) = length exs"
  using assms
proof (induction exs arbitrary: m)
  case Nil
  then show ?case by (simp add: updates_def)
next
  case (Cons e exs)
  obtain input target lr where e: "e = (input, target, lr)" by (cases e) auto
  from Cons.prems(1) obtain m1 where
    m1: "update m input target lr = Inr m1" and rest: "updates m1 exs = Inr m'"
    by (auto simp: updates_def e andThen_def split: sum.splits)
  from Cons.prems(2) have ne: "input \<noteq> []" and all: "list_all (\<lambda>e. fst e \<noteq> []) exs"
    by (simp_all add: e)
  from update_counters [OF ne m1] obtain l where
    l: "updateLoss m input target lr = Inr l" "loss_' m1 = loss_' m + l"
       "nexamples_' m1 = nexamples_' m + 1" by blast
  from Cons.IH [OF rest all] l m1 show ?case by (simp add: e)
qed

text \<open>\<open>setTargetCounts\<close> writes the tables and the generator only.\<close>

lemma setTargetCounts_frame:
  assumes "setTargetCounts fl T shuffle m counts = Inr m'"
  shows "loss_' m' = loss_' m" "nexamples_' m' = nexamples_' m"
    "wi_' m' = wi_' m" "wo_' m' = wo_' m" "args_' m' = args_' m" "osz_' m' = osz_' m"
    "hsz_' m' = hsz_' m" "quant_' m' = quant_' m" "hidden_' m' = hidden_' m"
    "output_' m' = output_' m" "grad_' m' = grad_' m" "t_sigmoid_' m' = t_sigmoid_' m"
    "t_log_' m' = t_log_' m" "negpos m' = negpos m"
  using assms
  by (auto simp: setTargetCounts_def initTableNegatives_def buildTree_def andThen_def
           split: if_splits sum.splits prod.splits)

text \<open>
  The calls on a model of two classes with one input row, all matrix entries zero, the
  input \<open>[0]\<close>, the target 0 and the learning rate 0.  The score of every node is the entry
  256 of the sigmoid table, 1/2, and its loss the entry 256 of the table of logarithms.
\<close>

lemma Model_t_log:
  "Model wi wo args seed = Inr m \<Longrightarrow> 0 \<le> i \<Longrightarrow> i \<le> 512 \<Longrightarrow>
   elemAt (t_log_' m) i = Inr (ln ((real_of_int i + 1 / 100000) / 512))"
  by (auto simp: Model_def initLog_def initSigmoid_def elemAt_def LOG_TABLE_SIZE_def Let_def
           split: if_splits)

lemma softmax_tiny:
  assumes "wo_' m = [[0], [0]]" "osz_' m = 2" "quant_' m = False" "hidden_' m = [0]"
    "length (output_' m) = 2" "length (grad_' m) = 1"
    "elemAt (t_log_' m) 256 = Inr (ln ((256 + 1 / 100000) / 512))"
  shows "softmax m 0 0 = Inr (- ln ((256 + 1 / 100000) / 512),
           m\<lparr>grad_' := [0], output_' := [1 / 2, 1 / 2], wo_' := [[0], [0]]\<rparr>)"
proof -
  obtain a b where out: "output_' m = [a, b]"
    using assms(5) by (cases "output_' m"; cases "tl (output_' m)") auto
  obtain g where g: "grad_' m = [g]"
    using assms(6) by (cases "grad_' m") auto
  have cs: "computeOutputSoftmax m [0] [a, b] = Inr [1 / 2, 1 / 2]"
    using assms(1-3)
    by (simp add: computeOutputSoftmax_def Vector_mul_matrix_def dot_def andThen_def elemAt_def
                upto.simps)
  have tl: "elemAt (t_log_' (m\<lparr>grad_' := [0], output_' := [1 / 2, 1 / 2], wo_' := [[0], [0]]\<rparr>)) 256
      = Inr (ln ((256 + 1 / 100000) / 512))"
    using assms(7) by simp
  show ?thesis
    using assms(1,2,4)
    apply (simp add: softmax_def cs out g andThen_def upto.simps Vector_zero_def
        Vector_addRow_scaled_def Matrix_addRow_def rowAt_def log_def to_int64_def int64_ok_def
        LOG_TABLE_SIZE_def Let_def)
    apply (simp add: elemAt_def)
    apply (simp add: to_int64_def LOG_TABLE_SIZE_def int64_ok_def andThen_def assms(7))
    done
qed

lemma computeHidden_tiny:
  assumes "wi_' m = [[0]]" "hsz_' m = 1" "quant_' m = False" "length (hidden_' m) = 1"
  shows "computeHidden m [0] (hidden_' m) = Inr [0]"
proof -
  obtain h where h: "hidden_' m = [h]"
    using assms(4) by (cases "hidden_' m") auto
  show ?thesis
    using assms(1-3)
    by (simp add: computeHidden_def h Vector_zero_def Vector_addRow_def rowAt_def andThen_def
                  Vector_mul_def)
qed

lemma exampleLoss_tiny:
  assumes "wo_' m = [[0], [0]]" "osz_' m = 2" "quant_' m = False"
    "length (output_' m) = 2" "length (grad_' m) = 1" "loss (args_' m) = loss_name.softmax"
    "elemAt (t_log_' m) 256 = Inr (ln ((256 + 1 / 100000) / 512))"
  shows "exampleLoss (m\<lparr>hidden_' := [0]\<rparr>) 0 0 = Inr (- ln ((256 + 1 / 100000) / 512),
           m\<lparr>hidden_' := [0], grad_' := [0], output_' := [1 / 2, 1 / 2], wo_' := [[0], [0]]\<rparr>)"
  using assms softmax_tiny [of "m\<lparr>hidden_' := [0]\<rparr>"]
  by (simp add: exampleLoss_def)

lemma update_tiny:
  assumes "wi_' m = [[0]]" "wo_' m = [[0], [0]]" "osz_' m = 2" "hsz_' m = 1" "quant_' m = False"
    "length (hidden_' m) = 1" "length (output_' m) = 2" "length (grad_' m) = 1"
    "loss (args_' m) = loss_name.softmax" "model (args_' m) = model_name.sup"
    "elemAt (t_log_' m) 256 = Inr (ln ((256 + 1 / 100000) / 512))"
    "int64_ok (nexamples_' m + 1)"
  shows "update m [0] 0 0 =
           Inr (m\<lparr>hidden_' := [0], grad_' := [0], output_' := [1 / 2, 1 / 2],
                  wo_' := [[0], [0]], wi_' := [[0]],
                  loss_' := loss_' m - ln ((256 + 1 / 100000) / 512),
                  nexamples_' := nexamples_' m + 1\<rparr>)"
    and "updateLoss m [0] 0 0 = Inr (- ln ((256 + 1 / 100000) / 512))"
proof -
  note h = computeHidden_tiny [OF assms(1,4,5,6)]
  note l = exampleLoss_tiny [OF assms(2,3,5,7,8,9,11)]
  show "updateLoss m [0] 0 0 = Inr (- ln ((256 + 1 / 100000) / 512))"
    by (simp add: updateLoss_def h l andThen_def)
  show "update m [0] 0 0 =
           Inr (m\<lparr>hidden_' := [0], grad_' := [0], output_' := [1 / 2, 1 / 2],
                  wo_' := [[0], [0]], wi_' := [[0]],
                  loss_' := loss_' m - ln ((256 + 1 / 100000) / 512),
                  nexamples_' := nexamples_' m + 1\<rparr>)"
    using assms(1,3,10,12)
    by (simp add: update_def h l andThen_def Vector_mul_def Matrix_addRow_def rowAt_def Let_def)
qed

lemma Model_t_sigmoid:
  "Model wi wo args seed = Inr m \<Longrightarrow> elemAt (t_sigmoid_' m) 256 = Inr (1 / 2)"
  by (auto simp: Model_def initLog_def initSigmoid_def elemAt_def SIGMOID_TABLE_SIZE_def
                 MAX_SIGMOID_def Let_def split: if_splits)

lemma binaryLogistic_tiny:
  assumes "wo_' m = [[0], [0]]" "hidden_' m = [0]" "grad_' m = [0]"
    "elemAt (t_sigmoid_' m) 256 = Inr (1 / 2)"
    "elemAt (t_log_' m) 256 = Inr (ln ((256 + 1 / 100000) / 512))"
    "t = 0 \<or> t = 1"
  shows "binaryLogistic m t label 0 = Inr (- ln ((256 + 1 / 100000) / 512), m)"
proof -
  have m: "m\<lparr>grad_' := [0], wo_' := [[0], [0]]\<rparr> = m"
    using assms(1,3) by simp
  have s: "sigmoid m 0 = Inr (1 / 2)"
    using assms(4)
    by (simp add: sigmoid_def MAX_SIGMOID_def SIGMOID_TABLE_SIZE_def to_int64_def int64_ok_def
                  andThen_def)
  have l: "log m (1 / 2) = Inr (ln ((256 + 1 / 100000) / 512))"
    using assms(5)
    by (simp add: log_def LOG_TABLE_SIZE_def to_int64_def int64_ok_def andThen_def)
  from assms(6) show ?thesis
  proof
    assume "t = 0"
    then show ?thesis
      using assms(1-3)
      by (simp add: binaryLogistic_def Matrix_dotRow_def rowAt_def dot_def andThen_def s
                    Vector_addRow_scaled_def Matrix_addRow_def m l Let_def)
  next
    assume "t = 1"
    then show ?thesis
      using assms(1-3)
      by (simp add: binaryLogistic_def Matrix_dotRow_def rowAt_def dot_def andThen_def s
                    Vector_addRow_scaled_def Matrix_addRow_def m l Let_def)
  qed
qed


lemma hierarchicalSoftmax_tiny:
  assumes "wo_' m = [[0], [0]]" "hidden_' m = [0]" "length (grad_' m) = 1"
    "elemAt (t_sigmoid_' m) 256 = Inr (1 / 2)"
    "elemAt (t_log_' m) 256 = Inr (ln ((256 + 1 / 100000) / 512))"
    "paths m = [[0], [0]]" "codes m = [[True], [False]]"
  shows "hierarchicalSoftmax m 0 0
           = Inr (- ln ((256 + 1 / 100000) / 512), m\<lparr>grad_' := [0]\<rparr>)"
proof -
  obtain g where g: "grad_' m = [g]"
    using assms(3) by (cases "grad_' m") auto
  have "binaryLogistic (m\<lparr>grad_' := [0]\<rparr>) 0 True 0
      = Inr (- ln ((256 + 1 / 100000) / 512), m\<lparr>grad_' := [0]\<rparr>)"
    using assms by (intro binaryLogistic_tiny) simp_all
  then show ?thesis
    using assms(6,7)
    by (simp add: hierarchicalSoftmax_def elemAt_def andThen_def upto.simps g Vector_zero_def)
qed

lemma negativeSampling_tiny:
  assumes "wo_' m = [[0], [0]]" "hidden_' m = [0]" "length (grad_' m) = 1"
    "elemAt (t_sigmoid_' m) 256 = Inr (1 / 2)"
    "elemAt (t_log_' m) 256 = Inr (ln ((256 + 1 / 100000) / 512))"
    "neg (args_' m) = 1" "negatives_' m = [0, 1]" "negpos m = 0"
  shows "negativeSampling m 0 0
           = Inr (- ln ((256 + 1 / 100000) / 512) - ln ((256 + 1 / 100000) / 512),
                  m\<lparr>grad_' := [0]\<rparr>)"
proof -
  obtain g where g: "grad_' m = [g]"
    using assms(3) by (cases "grad_' m") auto
  have b0: "binaryLogistic (m\<lparr>grad_' := [0]\<rparr>) 0 True 0
      = Inr (- ln ((256 + 1 / 100000) / 512), m\<lparr>grad_' := [0]\<rparr>)"
    using assms by (intro binaryLogistic_tiny) simp_all
  have n: "getNegative (m\<lparr>grad_' := [0]\<rparr>) 0 = Inr (1, m\<lparr>grad_' := [0]\<rparr>)"
    using assms(7,8) by (simp add: getNegative_def getNegativeLoop.simps andThen_def Let_def)
  have b1: "binaryLogistic (m\<lparr>grad_' := [0]\<rparr>) 1 False 0
      = Inr (- ln ((256 + 1 / 100000) / 512), m\<lparr>grad_' := [0]\<rparr>)"
    using assms by (intro binaryLogistic_tiny) simp_all
  show ?thesis
    using assms(6)
    by (simp add: negativeSampling_def andThen_def upto.simps g Vector_zero_def b0 n b1)
qed

lemma update_tiny_strategy:
  assumes "wi_' m = [[0]]" "hsz_' m = 1" "quant_' m = False" "length (hidden_' m) = 1"
    "osz_' m = 2" "model (args_' m) = model_name.sup" "int64_ok (nexamples_' m + 1)"
    "exampleLoss (m\<lparr>hidden_' := [0]\<rparr>) 0 0 = Inr (l, m\<lparr>hidden_' := [0], grad_' := [0]\<rparr>)"
  shows "update m [0] 0 0 =
           Inr (m\<lparr>hidden_' := [0], grad_' := [0], wi_' := [[0]],
                  loss_' := loss_' m + l, nexamples_' := nexamples_' m + 1\<rparr>)"
    and "updateLoss m [0] 0 0 = Inr l"
proof -
  note h = computeHidden_tiny [OF assms(1-4)]
  show "updateLoss m [0] 0 0 = Inr l"
    by (simp add: updateLoss_def h assms(8) andThen_def)
  show "update m [0] 0 0 =
           Inr (m\<lparr>hidden_' := [0], grad_' := [0], wi_' := [[0]],
                  loss_' := loss_' m + l, nexamples_' := nexamples_' m + 1\<rparr>)"
    using assms(1,5,6,7)
    by (simp add: update_def h assms(8) andThen_def Vector_mul_def Matrix_addRow_def rowAt_def
                  Let_def)
qed


lemma Model_tiny:
  assumes "Model [[0]] [[0], [0]]
      \<lparr>dim = 1, loss = lo, neg = ng, model = model_name.sup,
         verbose = 0, qout = False\<rparr> seed = Inr m"
  shows "wi_' m = [[0]]" "wo_' m = [[0], [0]]" "osz_' m = 2" "hsz_' m = 1" "quant_' m = False"
    "length (hidden_' m) = 1" "length (output_' m) = 2" "length (grad_' m) = 1"
    "loss (args_' m) = lo" "model (args_' m) = model_name.sup"
    "elemAt (t_log_' m) 256 = Inr (ln ((256 + 1 / 100000) / 512))"
    "int64_ok (nexamples_' m + 1)" "loss_' m = 0" "nexamples_' m = 1"
    "elemAt (t_sigmoid_' m) 256 = Inr (1 / 2)" "neg (args_' m) = ng"
    "paths m = []" "codes m = []" "negatives_' m = []" "negpos m = 0"
  using Model_fields [OF assms] Model_t_log [OF assms, of 256] Model_t_sigmoid [OF assms]
  by (simp_all add: int64_ok_def)

lemma updates_tiny_once:
  assumes "Model [[0]] [[0], [0]]
      \<lparr>dim = 1, loss = loss_name.softmax, neg = 0, model = model_name.sup,
         verbose = 0, qout = False\<rparr> seed = Inr m"
  shows "updates m [([0], 0, 0)] =
           Inr (m\<lparr>hidden_' := [0], grad_' := [0], output_' := [1 / 2, 1 / 2],
                  wo_' := [[0], [0]], wi_' := [[0]],
                  loss_' := - ln ((256 + 1 / 100000) / 512), nexamples_' := 2\<rparr>)"
    and "exampleLosses m [([0], 0, 0)] = [- ln ((256 + 1 / 100000) / 512)]"
  using Model_tiny [OF assms]
  by (simp_all add: updates_def update_tiny andThen_def)

lemma updates_tiny_twice:
  assumes "Model [[0]] [[0], [0]]
      \<lparr>dim = 1, loss = loss_name.softmax, neg = 0, model = model_name.sup,
         verbose = 0, qout = False\<rparr> seed = Inr m"
  shows "\<exists>m'. updates m [([0], 0, 0), ([0], 0, 0)] = Inr m'"
    and "exampleLosses m [([0], 0, 0), ([0], 0, 0)]
           = [- ln ((256 + 1 / 100000) / 512), - ln ((256 + 1 / 100000) / 512)]"
  using Model_tiny [OF assms]
  by (simp_all add: updates_def update_tiny andThen_def int64_ok_def)

text \<open>
  The same model under the hierarchical softmax, after \<open>setTargetCounts\<close> with the counts
  \<open>[2, 1]\<close>: both leaves hang under the root, node 0 of the output matrix.
\<close>

lemma setTargetCounts_tiny_hs:
  assumes "Model [[0]] [[0], [0]]
      \<lparr>dim = 1, loss = loss_name.hs, neg = 0, model = model_name.sup,
         verbose = 0, qout = False\<rparr> seed = Inr mc"
  shows "\<exists>m0. setTargetCounts fl T shuffle mc [2, 1] = Inr m0
           \<and> paths m0 = [[0], [0]] \<and> codes m0 = [[True], [False]]"
  using Model_tiny [OF assms]
  by (simp add: setTargetCounts_def buildTree_defs)

lemma updates_tiny_hs:
  assumes "Model [[0]] [[0], [0]]
      \<lparr>dim = 1, loss = loss_name.hs, neg = 0, model = model_name.sup,
         verbose = 0, qout = False\<rparr> seed = Inr mc"
    and "setTargetCounts fl T shuffle mc [2, 1] = Inr m0"
  shows "\<exists>m. updates m0 [([0], 0, 0)] = Inr m"
    and "exampleLosses m0 [([0], 0, 0)] = [- ln ((256 + 1 / 100000) / 512)]"
proof -
  note c = Model_tiny [OF assms(1)]
  note f = setTargetCounts_frame [OF assms(2)]
  from setTargetCounts_tiny_hs [OF assms(1), of fl T shuffle] assms(2)
  have p: "paths m0 = [[0], [0]]" "codes m0 = [[True], [False]]" by simp_all
  have "hierarchicalSoftmax (m0\<lparr>hidden_' := [0]\<rparr>) 0 0
      = Inr (- ln ((256 + 1 / 100000) / 512), m0\<lparr>hidden_' := [0], grad_' := [0]\<rparr>)"
    using hierarchicalSoftmax_tiny [of "m0\<lparr>hidden_' := [0]\<rparr>"] c f p by simp
  then have e: "exampleLoss (m0\<lparr>hidden_' := [0]\<rparr>) 0 0
      = Inr (- ln ((256 + 1 / 100000) / 512), m0\<lparr>hidden_' := [0], grad_' := [0]\<rparr>)"
    using c f by (simp add: exampleLoss_def)
  have u: "update m0 [0] 0 0 =
           Inr (m0\<lparr>hidden_' := [0], grad_' := [0], wi_' := [[0]],
                   loss_' := loss_' m0 + - ln ((256 + 1 / 100000) / 512),
                   nexamples_' := nexamples_' m0 + 1\<rparr>)"
    and l: "updateLoss m0 [0] 0 0 = Inr (- ln ((256 + 1 / 100000) / 512))"
    using update_tiny_strategy [of m0, OF _ _ _ _ _ _ _ e] c f by simp_all
  show "\<exists>m. updates m0 [([0], 0, 0)] = Inr m"
    by (simp add: updates_def u andThen_def)
  show "exampleLosses m0 [([0], 0, 0)] = [- ln ((256 + 1 / 100000) / 512)]"
    by (simp add: u l)
qed

text \<open>
  The same model under negative sampling with one negative, after \<open>setTargetCounts\<close> with
  the counts \<open>[1, 1]\<close>, a table size of 2, operations that do not round and a shuffle that
  leaves the table as it is: the table of negatives is \<open>[0, 1]\<close>.
\<close>

lemma setTargetCounts_tiny_ns:
  assumes "Model [[0]] [[0], [0]]
      \<lparr>dim = 1, loss = loss_name.ns, neg = 1, model = model_name.sup,
         verbose = 0, qout = False\<rparr> seed = Inr mc"
  shows "\<exists>m0. setTargetCounts \<lparr>to_float = (\<lambda>x. x), to_double = (\<lambda>x. x), pow_0_5 = sqrt\<rparr>
                 2 (\<lambda>g xs. (xs, g)) mc [1, 1] = Inr m0
           \<and> negatives_' m0 = [0, 1]"
proof -
  note c = Model_tiny [OF assms]
  have "fillTableNegatives \<lparr>to_float = (\<lambda>x. x), to_double = (\<lambda>x. x), pow_0_5 = sqrt\<rparr> 2 mc [1, 1] = Inr [0, 1]"
    using c(19)
    by (simp add: fillTableNegatives_def sumSqrt_def pow_half_def tableBound_def andThen_def
                  pushNegatives.simps)
  then show ?thesis
    using c by (simp add: setTargetCounts_def initTableNegatives_def andThen_def)
qed

lemma updates_tiny_ns:
  assumes "Model [[0]] [[0], [0]]
      \<lparr>dim = 1, loss = loss_name.ns, neg = 1, model = model_name.sup,
         verbose = 0, qout = False\<rparr> seed = Inr mc"
    and "setTargetCounts \<lparr>to_float = (\<lambda>x. x), to_double = (\<lambda>x. x), pow_0_5 = sqrt\<rparr>
           2 (\<lambda>g xs. (xs, g)) mc [1, 1] = Inr m0"
  shows "\<exists>m. updates m0 [([0], 0, 0)] = Inr m"
    and "exampleLosses m0 [([0], 0, 0)]
           = [- ln ((256 + 1 / 100000) / 512) - ln ((256 + 1 / 100000) / 512)]"
proof -
  note c = Model_tiny [OF assms(1)]
  note f = setTargetCounts_frame [OF assms(2)]
  from setTargetCounts_tiny_ns [OF assms(1)] assms(2)
  have p: "negatives_' m0 = [0, 1]" by simp
  have "negativeSampling (m0\<lparr>hidden_' := [0]\<rparr>) 0 0
      = Inr (- ln ((256 + 1 / 100000) / 512) - ln ((256 + 1 / 100000) / 512),
             m0\<lparr>hidden_' := [0], grad_' := [0]\<rparr>)"
    using negativeSampling_tiny [of "m0\<lparr>hidden_' := [0]\<rparr>"] c f p by simp
  then have e: "exampleLoss (m0\<lparr>hidden_' := [0]\<rparr>) 0 0
      = Inr (- ln ((256 + 1 / 100000) / 512) - ln ((256 + 1 / 100000) / 512),
             m0\<lparr>hidden_' := [0], grad_' := [0]\<rparr>)"
    using c f by (simp add: exampleLoss_def)
  have u: "update m0 [0] 0 0 =
           Inr (m0\<lparr>hidden_' := [0], grad_' := [0], wi_' := [[0]],
                   loss_' := loss_' m0
                     + (- ln ((256 + 1 / 100000) / 512) - ln ((256 + 1 / 100000) / 512)),
                   nexamples_' := nexamples_' m0 + 1\<rparr>)"
    and l: "updateLoss m0 [0] 0 0
              = Inr (- ln ((256 + 1 / 100000) / 512) - ln ((256 + 1 / 100000) / 512))"
    using update_tiny_strategy [of m0, OF _ _ _ _ _ _ _ e] c f by simp_all
  show "\<exists>m. updates m0 [([0], 0, 0)] = Inr m"
    by (simp add: updates_def u andThen_def)
  show "exampleLosses m0 [([0], 0, 0)]
          = [- ln ((256 + 1 / 100000) / 512) - ln ((256 + 1 / 100000) / 512)]"
    by (simp add: u l)
qed

text \<open>
  Claim C2, as amended.  The constructor sets \<open>nexamples_\<close> to 1, not 0; \<open>setTargetCounts\<close>,
  which a model with the hierarchical softmax or with negative sampling needs before its
  first \<open>update\<close>, changes neither counter; and each call of \<open>update\<close> on a non-empty input
  adds the loss of its example to \<open>loss_\<close> and 1 to \<open>nexamples_\<close>.  So after \<open>N\<close> such calls
  on a freshly constructed model, with or without a call of \<open>setTargetCounts\<close> before them,
  \<open>getLoss()\<close> is the sum of the \<open>N\<close> losses divided by \<open>N + 1\<close>, whatever the loss
  strategy.
\<close>

theorem getLoss_after_updates:
  assumes "Model wi wo args seed = Inr mc"
    and "m0 = mc \<or> setTargetCounts fl T shuffle mc counts = Inr m0"
    and "updates m0 exs = Inr m"
    and "list_all (\<lambda>e. fst e \<noteq> []) exs"
  shows "getLoss m = Inr (sum_list (exampleLosses m0 exs) / (real (length exs) + 1))
         \<and> length (exampleLosses m0 exs) = length exs"
proof -
  from Model_fields [OF assms(1)] have "loss_' mc = 0" "nexamples_' mc = 1" by simp_all
  with assms(2) have "loss_' m0 = 0" "nexamples_' m0 = 1"
    by (auto dest: setTargetCounts_frame(1,2))
  with updates_counters [OF assms(3,4)] show ?thesis
    by (simp add: getLoss_def add.commute)
qed

text \<open>
  The witness for C2, on a model of two classes whose matrices are zero, with the input
  \<open>[0]\<close>, the target 0 and the learning rate 0.  An output of this model has the
  probability 1/2 and the loss \<open>- log(1/2)\<close>, which the table of logarithms gives as
  \<open>L = - ln((256 + 1e-5) / 512)\<close>.  Under the full softmax, two calls of \<open>update\<close> right
  after the constructor: \<open>getLoss()\<close> is \<open>(L + L) / 3\<close>.  Under the hierarchical softmax,
  \<open>setTargetCounts\<close> with the counts \<open>[2, 1]\<close> and one call of \<open>update\<close>, whose example has
  one node on its path and the loss \<open>L\<close>: \<open>getLoss()\<close> is \<open>L / 2\<close>.  Under negative
  sampling with one negative, \<open>setTargetCounts\<close> with the counts \<open>[1, 1]\<close> and one call of
  \<open>update\<close>, whose example has the loss \<open>L + L\<close> of the target and of one negative:
  \<open>getLoss()\<close> is \<open>(L + L) / 2\<close>.
\<close>

theorem getLoss_after_updates_witness:
  "andThen (Model [[0]] [[0], [0]]
              \<lparr>dim = 1, loss = loss_name.softmax, neg = 0, model = model_name.sup,
                 verbose = 0, qout = False\<rparr> 1)
     (\<lambda>m0. andThen (updates m0 [([0], 0, 0), ([0], 0, 0)]) getLoss)
     = Inr ((- ln ((256 + 1 / 100000) / 512) - ln ((256 + 1 / 100000) / 512)) / 3)
   \<and> andThen (Model [[0]] [[0], [0]]
              \<lparr>dim = 1, loss = loss_name.hs, neg = 0, model = model_name.sup,
                 verbose = 0, qout = False\<rparr> 1)
     (\<lambda>mc. andThen (setTargetCounts \<lparr>to_float = (\<lambda>x. x), to_double = (\<lambda>x. x), pow_0_5 = sqrt\<rparr>
                      10 (\<lambda>g xs. (xs, g)) mc [2, 1])
     (\<lambda>m0. andThen (updates m0 [([0], 0, 0)]) getLoss))
     = Inr (- ln ((256 + 1 / 100000) / 512) / 2)
   \<and> andThen (Model [[0]] [[0], [0]]
              \<lparr>dim = 1, loss = loss_name.ns, neg = 1, model = model_name.sup,
                 verbose = 0, qout = False\<rparr> 1)
     (\<lambda>mc. andThen (setTargetCounts \<lparr>to_float = (\<lambda>x. x), to_double = (\<lambda>x. x), pow_0_5 = sqrt\<rparr>
                      2 (\<lambda>g xs. (xs, g)) mc [1, 1])
     (\<lambda>m0. andThen (updates m0 [([0], 0, 0)]) getLoss))
     = Inr ((- ln ((256 + 1 / 100000) / 512) - ln ((256 + 1 / 100000) / 512)) / 2)"
proof -
  have ne2: "list_all (\<lambda>e. fst e \<noteq> []) [([0], 0, 0), ([0 :: int], 0 :: int, 0 :: real)]"
    and ne1: "list_all (\<lambda>e. fst e \<noteq> []) [([0 :: int], 0 :: int, 0 :: real)]"
    by simp_all
  have a: "andThen (Model [[0]] [[0], [0]]
              \<lparr>dim = 1, loss = loss_name.softmax, neg = 0, model = model_name.sup,
                 verbose = 0, qout = False\<rparr> 1)
     (\<lambda>m0. andThen (updates m0 [([0], 0, 0), ([0], 0, 0)]) getLoss)
     = Inr ((- ln ((256 + 1 / 100000) / 512) - ln ((256 + 1 / 100000) / 512)) / 3)"
  proof -
    obtain m0 where m0: "Model [[0]] [[0], [0]]
        \<lparr>dim = 1, loss = loss_name.softmax, neg = 0, model = model_name.sup,
           verbose = 0, qout = False\<rparr> 1 = Inr m0"
      by (simp add: Model_def)
    from updates_tiny_twice(1) [OF m0] obtain m where
      m: "updates m0 [([0], 0, 0), ([0], 0, 0)] = Inr m" by blast
    from getLoss_after_updates [OF m0 disjI1 [OF refl] m ne2]
    have "getLoss m
        = Inr ((- ln ((256 + 1 / 100000) / 512) - ln ((256 + 1 / 100000) / 512)) / 3)"
      by (simp add: updates_tiny_twice(2) [OF m0] del: exampleLosses.simps)
    then show ?thesis by (simp add: m0 m andThen_def)
  qed
  have b: "andThen (Model [[0]] [[0], [0]]
              \<lparr>dim = 1, loss = loss_name.hs, neg = 0, model = model_name.sup,
                 verbose = 0, qout = False\<rparr> 1)
     (\<lambda>mc. andThen (setTargetCounts \<lparr>to_float = (\<lambda>x. x), to_double = (\<lambda>x. x), pow_0_5 = sqrt\<rparr>
                      10 (\<lambda>g xs. (xs, g)) mc [2, 1])
     (\<lambda>m0. andThen (updates m0 [([0], 0, 0)]) getLoss))
     = Inr (- ln ((256 + 1 / 100000) / 512) / 2)"
  proof -
    obtain mc where mc: "Model [[0]] [[0], [0]]
        \<lparr>dim = 1, loss = loss_name.hs, neg = 0, model = model_name.sup,
           verbose = 0, qout = False\<rparr> 1 = Inr mc"
      by (simp add: Model_def)
    from setTargetCounts_tiny_hs [OF mc] obtain m0 where
      m0: "setTargetCounts \<lparr>to_float = (\<lambda>x. x), to_double = (\<lambda>x. x), pow_0_5 = sqrt\<rparr>
             10 (\<lambda>g xs. (xs, g)) mc [2, 1] = Inr m0" by blast
    from updates_tiny_hs(1) [OF mc m0] obtain m where
      m: "updates m0 [([0], 0, 0)] = Inr m" by blast
    from getLoss_after_updates [OF mc disjI2 [OF m0] m ne1]
    have "getLoss m = Inr (- ln ((256 + 1 / 100000) / 512) / 2)"
      by (simp add: updates_tiny_hs(2) [OF mc m0] del: exampleLosses.simps)
    then show ?thesis by (simp add: mc m0 m andThen_def)
  qed
  have c: "andThen (Model [[0]] [[0], [0]]
              \<lparr>dim = 1, loss = loss_name.ns, neg = 1, model = model_name.sup,
                 verbose = 0, qout = False\<rparr> 1)
     (\<lambda>mc. andThen (setTargetCounts \<lparr>to_float = (\<lambda>x. x), to_double = (\<lambda>x. x), pow_0_5 = sqrt\<rparr>
                      2 (\<lambda>g xs. (xs, g)) mc [1, 1])
     (\<lambda>m0. andThen (updates m0 [([0], 0, 0)]) getLoss))
     = Inr ((- ln ((256 + 1 / 100000) / 512) - ln ((256 + 1 / 100000) / 512)) / 2)"
  proof -
    obtain mc where mc: "Model [[0]] [[0], [0]]
        \<lparr>dim = 1, loss = loss_name.ns, neg = 1, model = model_name.sup,
           verbose = 0, qout = False\<rparr> 1 = Inr mc"
      by (simp add: Model_def)
    from setTargetCounts_tiny_ns [OF mc] obtain m0 where
      m0: "setTargetCounts \<lparr>to_float = (\<lambda>x. x), to_double = (\<lambda>x. x), pow_0_5 = sqrt\<rparr>
             2 (\<lambda>g xs. (xs, g)) mc [1, 1] = Inr m0" by blast
    from updates_tiny_ns(1) [OF mc m0] obtain m where
      m: "updates m0 [([0], 0, 0)] = Inr m" by blast
    from getLoss_after_updates [OF mc disjI2 [OF m0] m ne1]
    have "getLoss m
        = Inr ((- ln ((256 + 1 / 100000) / 512) - ln ((256 + 1 / 100000) / 512)) / 2)"
      by (simp add: updates_tiny_ns(2) [OF mc m0] del: exampleLosses.simps)
    then show ?thesis by (simp add: mc m0 m andThen_def)
  qed
  from a b c show ?thesis by (intro conjI)
qed

text \<open>
  Claim C2 as the spec states it fails already for \<open>N = 1\<close>: after one call of \<open>update\<close>
  on the same model, \<open>getLoss()\<close> is half the loss of the example, not the loss divided
  by 1.
\<close>

theorem getLoss_mean_counterexample:
  "andThen (Model [[0]] [[0], [0]]
              \<lparr>dim = 1, loss = loss_name.softmax, neg = 0, model = model_name.sup,
                 verbose = 0, qout = False\<rparr> 1)
     (\<lambda>m0. andThen (updates m0 [([0], 0, 0)]) getLoss)
     = Inr (- ln ((256 + 1 / 100000) / 512) / 2)
   \<and> andThen (Model [[0]] [[0], [0]]
              \<lparr>dim = 1, loss = loss_name.softmax, neg = 0, model = model_name.sup,
                 verbose = 0, qout = False\<rparr> 1)
     (\<lambda>m0. Inr (sum_list (exampleLosses m0 [([0], 0, 0)]) / real (length [([0 :: int], 0 :: int, 0 :: real)])))
     = Inr (- ln ((256 + 1 / 100000) / 512))
   \<and> - ln ((256 + 1 / 100000) / 512) / 2 \<noteq> - ln ((256 + 1 / 100000) / 512 :: real)"
proof -
  obtain m0 where m0: "Model [[0]] [[0], [0]]
      \<lparr>dim = 1, loss = loss_name.softmax, neg = 0, model = model_name.sup,
         verbose = 0, qout = False\<rparr> 1 = Inr m0"
    by (simp add: Model_def)
  have "ln ((256 + 1 / 100000) / 512 :: real) \<noteq> 0" by simp
  then have "- ln ((256 + 1 / 100000) / 512) / 2 \<noteq> - ln ((256 + 1 / 100000) / 512 :: real)"
    by simp
  then show ?thesis
    by (simp add: m0 andThen_def updates_tiny_once [OF m0] getLoss_def del: exampleLosses.simps)
qed

end
